theory Spec2Isabelle
  imports Complex_Main "HOL-Library.Log_Nat"
begin

section \<open>JavaScript numbers\<close>

text \<open>
  The engines compute with JavaScript \<open>number\<close>s, the IEEE 754 doubles. A number is
  modelled as a finite real or one of the three special values. There is one zero, read
  as \<open>+0\<close>; the only divisors of the source are \<open>2\<close> and \<open>w / 2\<close> for a
  \<open>clientWidth\<close> or \<open>clientHeight\<close> \<open>w\<close>, which is a non-negative integer, so a
  divisor is never \<open>-0\<close>.
\<close>

datatype number = Num real | PosInf | NegInf | NaN

subsection \<open>Rounding to the nearest double\<close>

text \<open>
  Every arithmetic operation returns its exact result rounded to the nearest double,
  ties to the even significand; a result that rounds to \<open>2^1024\<close> or beyond is an
  infinity. \<open>expo x\<close> is the exponent of a positive \<open>x\<close>: the \<open>e\<close> with
  \<open>2^e \<le> x < 2^(e+1)\<close>. \<open>ulp x\<close> is the spacing of the doubles at \<open>x\<close>: 52
  binary places below the exponent, and never below the subnormal spacing \<open>2^-1074\<close>.
\<close>

definition expo :: "real \<Rightarrow> int" where
  "expo x =
     (if 1 \<le> x then bitlen \<lfloor>x\<rfloor> - 1
      else if x * 2 ^ nat (bitlen \<lfloor>1 / x\<rfloor> - 1) = 1 then 1 - bitlen \<lfloor>1 / x\<rfloor>
      else - bitlen \<lfloor>1 / x\<rfloor>)"

definition round_half_even :: "real \<Rightarrow> int" where
  "round_half_even y =
     (if y - of_int \<lfloor>y\<rfloor> < 1 / 2 then \<lfloor>y\<rfloor>
      else if 1 / 2 < y - of_int \<lfloor>y\<rfloor> then \<lfloor>y\<rfloor> + 1
      else if even \<lfloor>y\<rfloor> then \<lfloor>y\<rfloor> else \<lfloor>y\<rfloor> + 1)"

definition ulp :: "real \<Rightarrow> real" where
  "ulp x = 2 powi (max (expo \<bar>x\<bar>) (- 1022) - 52)"

definition round_double :: "real \<Rightarrow> number" where
  "round_double x =
     (if x = 0 then Num 0
      else if 2 powi 1024 \<le> \<bar>of_int (round_half_even (x / ulp x)) * ulp x\<bar>
        then (if 0 < x then PosInf else NegInf)
      else Num (of_int (round_half_even (x / ulp x)) * ulp x))"

subsection \<open>The operations\<close>

fun js_neg :: "number \<Rightarrow> number" where
  "js_neg (Num a) = Num (- a)"
| "js_neg PosInf = NegInf"
| "js_neg NegInf = PosInf"
| "js_neg NaN = NaN"

text \<open>\<open>a + b\<close>: opposite infinities cancel to \<open>NaN\<close>, \<open>NaN\<close> is absorbing.\<close>

fun js_add :: "number \<Rightarrow> number \<Rightarrow> number" where
  "js_add NaN _ = NaN"
| "js_add _ NaN = NaN"
| "js_add PosInf NegInf = NaN"
| "js_add NegInf PosInf = NaN"
| "js_add PosInf _ = PosInf"
| "js_add _ PosInf = PosInf"
| "js_add NegInf _ = NegInf"
| "js_add _ NegInf = NegInf"
| "js_add (Num a) (Num b) = round_double (a + b)"

text \<open>\<open>a - b\<close> is \<open>a + (-b)\<close>.\<close>

definition js_sub :: "number \<Rightarrow> number \<Rightarrow> number" where
  "js_sub a b = js_add a (js_neg b)"

text \<open>\<open>a * b\<close>: zero times an infinity is \<open>NaN\<close>.\<close>

fun js_mul :: "number \<Rightarrow> number \<Rightarrow> number" where
  "js_mul NaN _ = NaN"
| "js_mul _ NaN = NaN"
| "js_mul (Num a) (Num b) = round_double (a * b)"
| "js_mul (Num a) PosInf = (if a = 0 then NaN else if 0 < a then PosInf else NegInf)"
| "js_mul (Num a) NegInf = (if a = 0 then NaN else if 0 < a then NegInf else PosInf)"
| "js_mul PosInf (Num b) = (if b = 0 then NaN else if 0 < b then PosInf else NegInf)"
| "js_mul NegInf (Num b) = (if b = 0 then NaN else if 0 < b then NegInf else PosInf)"
| "js_mul PosInf PosInf = PosInf"
| "js_mul PosInf NegInf = NegInf"
| "js_mul NegInf PosInf = NegInf"
| "js_mul NegInf NegInf = PosInf"

text \<open>
  \<open>a / b\<close>: a finite value over zero is an infinity of the dividend's sign, zero over
  zero and infinity over infinity are \<open>NaN\<close>; nothing is raised.
\<close>

fun js_div :: "number \<Rightarrow> number \<Rightarrow> number" where
  "js_div NaN _ = NaN"
| "js_div _ NaN = NaN"
| "js_div (Num a) (Num b) =
     (if b \<noteq> 0 then round_double (a / b)
      else if a = 0 then NaN
      else if 0 < a then PosInf else NegInf)"
| "js_div (Num a) PosInf = Num 0"
| "js_div (Num a) NegInf = Num 0"
| "js_div PosInf (Num b) = (if 0 \<le> b then PosInf else NegInf)"
| "js_div NegInf (Num b) = (if 0 \<le> b then NegInf else PosInf)"
| "js_div PosInf PosInf = NaN"
| "js_div PosInf NegInf = NaN"
| "js_div NegInf PosInf = NaN"
| "js_div NegInf NegInf = NaN"

text \<open>\<open>Math.floor\<close>: the floor of a double is a double; the special values stay.\<close>

fun Math_floor :: "number \<Rightarrow> number" where
  "Math_floor (Num a) = Num (of_int \<lfloor>a\<rfloor>)"
| "Math_floor v = v"

text \<open>\<open>a !== b\<close> on numbers: \<open>NaN\<close> differs from everything, itself included.\<close>

definition strict_ne :: "number \<Rightarrow> number \<Rightarrow> bool" where
  "strict_ne a b = (a = NaN \<or> b = NaN \<or> a \<noteq> b)"

text \<open>The order of the numbers other than \<open>NaN\<close>.\<close>

fun js_le :: "number \<Rightarrow> number \<Rightarrow> bool" where
  "js_le NegInf _ = True"
| "js_le _ PosInf = True"
| "js_le (Num a) (Num b) = (a \<le> b)"
| "js_le _ _ = False"

text \<open>\<open>Math.min\<close> and \<open>Math.max\<close> return \<open>NaN\<close> as soon as one argument is \<open>NaN\<close>.\<close>

definition Math_min :: "number \<Rightarrow> number \<Rightarrow> number" where
  "Math_min a b = (if a = NaN \<or> b = NaN then NaN else if js_le a b then a else b)"

definition Math_max :: "number \<Rightarrow> number \<Rightarrow> number" where
  "Math_max a b = (if a = NaN \<or> b = NaN then NaN else if js_le a b then b else a)"

text \<open>A number lies in the closed interval from \<open>lo\<close> to \<open>hi\<close>.\<close>

fun in_range :: "real \<Rightarrow> real \<Rightarrow> number \<Rightarrow> bool" where
  "in_range lo hi (Num a) = (lo \<le> a \<and> a \<le> hi)"
| "in_range lo hi _ = False"


section \<open>The host: canvas element, window, events\<close>

datatype exn = NotFoundError | TypeError | OperationError

text \<open>
  A call either returns or throws; in both cases the mutations made so far stay.
\<close>

datatype 's outcome = Returned 's | Threw exn 's

fun state_of :: "'s outcome \<Rightarrow> 's" where
  "state_of (Returned s) = s"
| "state_of (Threw _ s) = s"

fun returned :: "'s outcome \<Rightarrow> bool" where
  "returned (Returned _) = True"
| "returned (Threw _ _) = False"

text \<open>
  The fields of \<open>PointerEvent\<close> that the handlers read. \<open>clientX\<close> and \<open>clientY\<close>
  are DOM \<open>double\<close>s, which are finite: they are given as the reals they denote.
\<close>

record PointerEvent =
  clientX :: real
  clientY :: real
  pointerId :: int

text \<open>
  The canvas element. \<open>clientWidth\<close>, \<open>clientHeight\<close>: the CSS size; \<open>width\<close>,
  \<open>height\<close>: the size of the drawing buffer; \<open>sizeWrites\<close> counts the assignments to
  \<open>width\<close> and \<open>height\<close> (each one resets the drawing buffer); \<open>capture\<close>: the pointers
  captured by the element; \<open>listeners\<close>: the engines (by object identity) whose four
  pointer listeners and whose resize listener on the window are registered;
  \<open>engineCleanup\<close>, \<open>engineCleanupGL\<close>, \<open>engineCleanupCanvas\<close>: the properties
  \<open>_engineCleanup\<close>, \<open>_engineCleanupGL\<close> and \<open>_engineCleanupCanvas\<close> of the
  element, each undefined or a closure that removes the listeners of the engine that
  stored it; the last three fields say which kinds of context \<open>getContext\<close> yields.
\<close>

record HTMLCanvasElement =
  clientWidth :: nat
  clientHeight :: nat
  width :: int
  height :: int
  sizeWrites :: nat
  capture :: "int set"
  listeners :: "nat set"
  engineCleanup :: "nat option"
  engineCleanupGL :: "nat option"
  engineCleanupCanvas :: "nat option"
  webgpuContext :: bool
  webglContext :: bool
  context2d :: bool

text \<open>
  The window and navigator. \<open>gpu\<close>: \<open>'gpu' in navigator\<close>; \<open>adapter\<close>:
  \<open>requestAdapter\<close> resolves with an adapter (otherwise with \<open>null\<close>); \<open>deviceGranted\<close>:
  \<open>requestDevice\<close> resolves (otherwise it rejects); \<open>activePointers\<close>: the ids of the
  active pointers; \<open>rafQueue\<close>, \<open>rafCounter\<close>: the pending animation frame callbacks
  and the last handle handed out.
\<close>

record Window =
  devicePixelRatio :: real
  gpu :: bool
  adapter :: bool
  deviceGranted :: bool
  activePointers :: "int set"
  rafQueue :: "nat list"
  rafCounter :: nat

text \<open>
  \<open>setPointerCapture\<close> and \<open>releasePointerCapture\<close> throw \<open>NotFoundError\<close> when the
  id is not the id of an active pointer.
\<close>

definition setPointerCapture :: "Window \<Rightarrow> HTMLCanvasElement \<Rightarrow> int \<Rightarrow> HTMLCanvasElement outcome" where
  "setPointerCapture w c pid =
     (if pid \<in> activePointers w then Returned (c\<lparr>capture := insert pid (capture c)\<rparr>)
      else Threw NotFoundError c)"

definition releasePointerCapture :: "Window \<Rightarrow> HTMLCanvasElement \<Rightarrow> int \<Rightarrow> HTMLCanvasElement outcome" where
  "releasePointerCapture w c pid =
     (if pid \<in> activePointers w then Returned (c\<lparr>capture := capture c - {pid}\<rparr>)
      else Threw NotFoundError c)"

text \<open>
  \<open>requestAnimationFrame\<close> hands out the next handle (the first one is 1) and queues
  the callback; \<open>cancelAnimationFrame\<close> removes it from the queue.
\<close>

definition requestAnimationFrame :: "Window \<Rightarrow> nat \<times> Window" where
  "requestAnimationFrame w =
     (Suc (rafCounter w),
      w\<lparr>rafQueue := rafQueue w @ [Suc (rafCounter w)], rafCounter := Suc (rafCounter w)\<rparr>)"

definition cancelAnimationFrame :: "Window \<Rightarrow> nat \<Rightarrow> Window" where
  "cancelAnimationFrame w h = w\<lparr>rafQueue := removeAll h (rafQueue w)\<rparr>"

text \<open>
  Assigning a number to \<open>canvas.width\<close> or \<open>canvas.height\<close>: the number is converted
  to an \<open>unsigned long\<close> (the special values to 0, a finite value truncated towards
  zero and taken modulo \<open>2^32\<close>) and stored when it is at most \<open>2^31 - 1\<close>; otherwise
  the attribute's default (300 for the width, 150 for the height) is stored.
\<close>

fun to_unsigned_long :: "number \<Rightarrow> int" where
  "to_unsigned_long (Num v) = (if 0 \<le> v then \<lfloor>v\<rfloor> else \<lceil>v\<rceil>) mod 4294967296"
| "to_unsigned_long _ = 0"

definition reflect_unsigned :: "int \<Rightarrow> number \<Rightarrow> int" where
  "reflect_unsigned dflt v =
     (if to_unsigned_long v \<le> 2147483647 then to_unsigned_long v else dflt)"

definition set_width :: "number \<Rightarrow> HTMLCanvasElement \<Rightarrow> HTMLCanvasElement" where
  "set_width v c = c\<lparr>width := reflect_unsigned 300 v, sizeWrites := Suc (sizeWrites c)\<rparr>"

definition set_height :: "number \<Rightarrow> HTMLCanvasElement \<Rightarrow> HTMLCanvasElement" where
  "set_height v c = c\<lparr>height := reflect_unsigned 150 v, sizeWrites := Suc (sizeWrites c)\<rparr>"


section \<open>State shared by the three engines\<close>

text \<open>
  \<open>translation\<close> is \<open>{x, y}\<close> in the source; the fields are named \<open>tx\<close>
  and \<open>ty\<close> here.
\<close>

record Vec2 =
  tx :: number
  ty :: number

record PointerState =
  dragging :: bool
  lastX :: real
  lastY :: real

text \<open>What an engine does to the console and to its graphics context.\<close>

datatype effect = ConsoleError | Configure | WriteUniforms | CreateVertexBuffer | DrawCall

text \<open>
  The fields that the three classes have in common, together with the canvas and the
  window they act on. \<open>ident\<close> is the identity of the object: distinct engines have
  distinct identities.
\<close>

record Backend =
  ident :: nat
  canvas :: HTMLCanvasElement
  window :: Window
  running :: bool
  animationFrame :: "nat option"
  translation :: Vec2
  pointer :: PointerState
  effects :: "effect list"

text \<open>
  \<open>Engine\<close> (WebGPU). \<open>device\<close>, \<open>gpuContext\<close> (the field \<open>context\<close>): the field has
  been assigned; \<open>pipeline\<close>: \<open>createPipeline\<close> and \<open>createUniforms\<close> have built the
  pipeline, the uniform buffer and the bind group; \<open>vertexBuffer\<close>: \<open>_vertexBuffer\<close>
  is not \<open>null\<close>.
\<close>

record Engine = Backend +
  device :: bool
  gpuContext :: bool
  pipeline :: bool
  needsUpload :: bool
  vertexBuffer :: bool

text \<open>\<open>EngineGL\<close>. \<open>gl\<close>: the field has been assigned; \<open>program\<close>: \<open>setupGL\<close> has run.\<close>

record EngineGL = Backend +
  gl :: bool
  program :: bool

text \<open>\<open>EngineCanvas\<close>. \<open>ctx\<close>: the field has been assigned.\<close>

record EngineCanvas = Backend +
  ctx :: bool

text \<open>The clamp of the pointer-move handlers: \<open>Math.max(-2, Math.min(2, v))\<close>.\<close>

definition clamp2 :: "number \<Rightarrow> number" where
  "clamp2 v = Math_max (Num (- 2)) (Math_min (Num 2) v)"


section \<open>Pointer handlers\<close>

subsection \<open>Engine (WebGPU)\<close>

definition Engine_onPointerDown :: "Engine \<Rightarrow> PointerEvent \<Rightarrow> Engine outcome" where
  "Engine_onPointerDown s e =
     (case setPointerCapture (window s) (canvas s) (pointerId e) of
        Threw x c \<Rightarrow> Threw x s
      | Returned c \<Rightarrow>
          Returned (s\<lparr>canvas := c,
                      pointer := \<lparr>dragging = True, lastX = clientX e, lastY = clientY e\<rparr>\<rparr>))"

definition Engine_onPointerMove :: "Engine \<Rightarrow> PointerEvent \<Rightarrow> Engine" where
  "Engine_onPointerMove s e =
     (if \<not> dragging (pointer s) then s
      else
        let dx = js_sub (Num (clientX e)) (Num (lastX (pointer s)));
            dy = js_sub (Num (clientY e)) (Num (lastY (pointer s)));
            p = (pointer s)\<lparr>lastX := clientX e, lastY := clientY e\<rparr>;
            w = Num (real (clientWidth (canvas s)));
            h = Num (real (clientHeight (canvas s)));
            x1 = js_add (tx (translation s)) (js_div dx (js_div w (Num 2)));
            y1 = js_sub (ty (translation s)) (js_div dy (js_div h (Num 2)))
        in s\<lparr>pointer := p,
             translation := \<lparr>tx = clamp2 x1, ty = clamp2 y1\<rparr>,
             needsUpload := True\<rparr>)"

definition Engine_endDrag :: "Engine \<Rightarrow> PointerEvent \<Rightarrow> Engine" where
  "Engine_endDrag s e =
     (let c = (if dragging (pointer s)
               then state_of (releasePointerCapture (window s) (canvas s) (pointerId e))
               else canvas s)
      in s\<lparr>canvas := c, pointer := (pointer s)\<lparr>dragging := False\<rparr>\<rparr>)"

subsection \<open>EngineGL\<close>

definition EngineGL_onPointerDown :: "EngineGL \<Rightarrow> PointerEvent \<Rightarrow> EngineGL outcome" where
  "EngineGL_onPointerDown s e =
     (case setPointerCapture (window s) (canvas s) (pointerId e) of
        Threw x c \<Rightarrow> Threw x s
      | Returned c \<Rightarrow>
          Returned (s\<lparr>canvas := c,
                      pointer := \<lparr>dragging = True, lastX = clientX e, lastY = clientY e\<rparr>\<rparr>))"

definition EngineGL_onPointerMove :: "EngineGL \<Rightarrow> PointerEvent \<Rightarrow> EngineGL" where
  "EngineGL_onPointerMove s e =
     (if \<not> dragging (pointer s) then s
      else
        let dx = js_sub (Num (clientX e)) (Num (lastX (pointer s)));
            dy = js_sub (Num (clientY e)) (Num (lastY (pointer s)));
            p = (pointer s)\<lparr>lastX := clientX e, lastY := clientY e\<rparr>;
            w = Num (real (clientWidth (canvas s)));
            h = Num (real (clientHeight (canvas s)));
            x1 = js_add (tx (translation s)) (js_div dx (js_div w (Num 2)));
            y1 = js_sub (ty (translation s)) (js_div dy (js_div h (Num 2)))
        in s\<lparr>pointer := p, translation := \<lparr>tx = clamp2 x1, ty = clamp2 y1\<rparr>\<rparr>)"

definition EngineGL_endDrag :: "EngineGL \<Rightarrow> PointerEvent \<Rightarrow> EngineGL" where
  "EngineGL_endDrag s e =
     (let c = (if dragging (pointer s)
               then state_of (releasePointerCapture (window s) (canvas s) (pointerId e))
               else canvas s)
      in s\<lparr>canvas := c, pointer := (pointer s)\<lparr>dragging := False\<rparr>\<rparr>)"

subsection \<open>EngineCanvas\<close>

definition EngineCanvas_onPointerDown :: "EngineCanvas \<Rightarrow> PointerEvent \<Rightarrow> EngineCanvas outcome" where
  "EngineCanvas_onPointerDown s e =
     (case setPointerCapture (window s) (canvas s) (pointerId e) of
        Threw x c \<Rightarrow> Threw x s
      | Returned c \<Rightarrow>
          Returned (s\<lparr>canvas := c,
                      pointer := \<lparr>dragging = True, lastX = clientX e, lastY = clientY e\<rparr>\<rparr>))"

definition EngineCanvas_onPointerMove :: "EngineCanvas \<Rightarrow> PointerEvent \<Rightarrow> EngineCanvas" where
  "EngineCanvas_onPointerMove s e =
     (if \<not> dragging (pointer s) then s
      else
        let dx = js_sub (Num (clientX e)) (Num (lastX (pointer s)));
            dy = js_sub (Num (clientY e)) (Num (lastY (pointer s)));
            p = (pointer s)\<lparr>lastX := clientX e, lastY := clientY e\<rparr>;
            w = Num (real (clientWidth (canvas s)));
            h = Num (real (clientHeight (canvas s)));
            x1 = js_add (tx (translation s)) (js_div dx (js_div w (Num 2)));
            y1 = js_sub (ty (translation s)) (js_div dy (js_div h (Num 2)))
        in s\<lparr>pointer := p, translation := \<lparr>tx = clamp2 x1, ty = clamp2 y1\<rparr>\<rparr>)"

definition EngineCanvas_endDrag :: "EngineCanvas \<Rightarrow> PointerEvent \<Rightarrow> EngineCanvas" where
  "EngineCanvas_endDrag s e =
     (let c = (if dragging (pointer s)
               then state_of (releasePointerCapture (window s) (canvas s) (pointerId e))
               else canvas s)
      in s\<lparr>canvas := c, pointer := (pointer s)\<lparr>dragging := False\<rparr>\<rparr>)"


section \<open>Resize handling and drawing\<close>

text \<open>\<open>window.devicePixelRatio || 1\<close>: zero is falsy.\<close>

definition dpr_or_1 :: "Window \<Rightarrow> real" where
  "dpr_or_1 w = (if devicePixelRatio w = 0 then 1 else devicePixelRatio w)"

text \<open>\<open>Math.floor(clientWidth * dpr)\<close> and \<open>Math.floor(clientHeight * dpr)\<close>.\<close>

definition buffer_width :: "Window \<Rightarrow> HTMLCanvasElement \<Rightarrow> number" where
  "buffer_width w c = Math_floor (js_mul (Num (real (clientWidth c))) (Num (dpr_or_1 w)))"

definition buffer_height :: "Window \<Rightarrow> HTMLCanvasElement \<Rightarrow> number" where
  "buffer_height w c = Math_floor (js_mul (Num (real (clientHeight c))) (Num (dpr_or_1 w)))"

text \<open>
  The guarded assignment that \<open>Engine.configureContext\<close> and \<open>EngineCanvas.draw\<close>
  share: both attributes are written when one of them differs.
\<close>

definition fit_buffer :: "Window \<Rightarrow> HTMLCanvasElement \<Rightarrow> HTMLCanvasElement" where
  "fit_buffer w c =
     (if strict_ne (Num (of_int (width c))) (buffer_width w c)
         \<or> strict_ne (Num (of_int (height c))) (buffer_height w c)
      then set_height (buffer_height w c) (set_width (buffer_width w c) c)
      else c)"

subsection \<open>Engine (WebGPU)\<close>

text \<open>
  \<open>configureContext\<close>: the call of \<open>this.context.configure\<close> is outside the
  \<open>if\<close>. It throws a \<open>TypeError\<close> when \<open>context\<close> is undefined.
\<close>

definition Engine_configureContext :: "Engine \<Rightarrow> Engine outcome" where
  "Engine_configureContext s =
     (let s1 = s\<lparr>canvas := fit_buffer (window s) (canvas s)\<rparr>
      in if gpuContext s1 then Returned (s1\<lparr>effects := effects s1 @ [Configure]\<rparr>)
         else Threw TypeError s1)"

definition Engine_onResize :: "Engine \<Rightarrow> Engine outcome" where
  "Engine_onResize s = Engine_configureContext s"

text \<open>\<open>uploadUniforms\<close> reads \<open>this.device.queue\<close> and \<open>this.uniformBuffer\<close>.\<close>

definition Engine_uploadUniforms :: "Engine \<Rightarrow> Engine outcome" where
  "Engine_uploadUniforms s =
     (if device s \<and> pipeline s
      then Returned (s\<lparr>effects := effects s @ [WriteUniforms], needsUpload := False\<rparr>)
      else Threw TypeError s)"

definition Engine_createVertexBuffer :: "Engine \<Rightarrow> Engine" where
  "Engine_createVertexBuffer s =
     s\<lparr>effects := effects s @ [CreateVertexBuffer], vertexBuffer := True\<rparr>"

text \<open>
  \<open>drawFrame\<close>: every step dereferences \<open>device\<close>, \<open>context\<close> or the pipeline
  objects, and throws a \<open>TypeError\<close> on the first one that is undefined.
\<close>

definition Engine_drawFrame :: "Engine \<Rightarrow> Engine outcome" where
  "Engine_drawFrame s =
     (case (if needsUpload s then Engine_uploadUniforms s else Returned s) of
        Threw x s1 \<Rightarrow> Threw x s1
      | Returned s1 \<Rightarrow>
          if \<not> device s1 then Threw TypeError s1
          else if \<not> gpuContext s1 then Threw TypeError s1
          else
            let s2 = (if \<not> vertexBuffer s1 then Engine_createVertexBuffer s1 else s1)
            in if \<not> pipeline s2 then Threw TypeError s2
               else Returned (s2\<lparr>effects := effects s2 @ [DrawCall]\<rparr>))"

subsection \<open>EngineGL\<close>

text \<open>The resize listener of \<open>EngineGL\<close> has an empty body.\<close>

definition EngineGL_onResize :: "EngineGL \<Rightarrow> EngineGL" where
  "EngineGL_onResize s = s"

definition EngineGL_draw :: "EngineGL \<Rightarrow> EngineGL outcome" where
  "EngineGL_draw s =
     (if \<not> gl s then Threw TypeError s
      else Returned (s\<lparr>effects := effects s @ [DrawCall]\<rparr>))"

subsection \<open>EngineCanvas\<close>

text \<open>The resize listener of \<open>EngineCanvas\<close> has an empty body too.\<close>

definition EngineCanvas_onResize :: "EngineCanvas \<Rightarrow> EngineCanvas" where
  "EngineCanvas_onResize s = s"

text \<open>
  \<open>draw\<close> first fits the buffer, then \<open>clear\<close> and \<open>drawTriangle\<close> use \<open>this.ctx\<close>.
\<close>

definition EngineCanvas_draw :: "EngineCanvas \<Rightarrow> EngineCanvas outcome" where
  "EngineCanvas_draw s =
     (let s1 = s\<lparr>canvas := fit_buffer (window s) (canvas s)\<rparr>
      in if \<not> ctx s1 then Threw TypeError s1
         else Returned (s1\<lparr>effects := effects s1 @ [DrawCall]\<rparr>))"


section \<open>Lifecycle: start, stop, dispose, and the frame callback\<close>

subsection \<open>Engine (WebGPU)\<close>

text \<open>The closure \<open>frame\<close> of \<open>start\<close>.\<close>

definition Engine_frame :: "Engine \<Rightarrow> Engine outcome" where
  "Engine_frame s =
     (if \<not> running s then Returned s
      else case Engine_drawFrame s of
             Threw x s1 \<Rightarrow> Threw x s1
           | Returned s1 \<Rightarrow>
               Returned (s1\<lparr>window := snd (requestAnimationFrame (window s1)),
                            animationFrame := Some (fst (requestAnimationFrame (window s1)))\<rparr>))"

definition Engine_start :: "Engine \<Rightarrow> Engine outcome" where
  "Engine_start s = (if running s then Returned s else Engine_frame (s\<lparr>running := True\<rparr>))"

text \<open>\<open>stop\<close> tests \<open>this.animationFrame !== null\<close>.\<close>

definition Engine_stop :: "Engine \<Rightarrow> Engine" where
  "Engine_stop s =
     s\<lparr>running := False,
       window := (case animationFrame s of
                    Some h \<Rightarrow> cancelAnimationFrame (window s) h
                  | None \<Rightarrow> window s),
       animationFrame := None\<rparr>"

text \<open>
  \<open>if (cleanup) cleanup()\<close> for the value \<open>cleanup\<close> of one of the three properties:
  the closure, when there is one, removes the five listeners of the engine that stored it.
\<close>

definition run_cleanup :: "nat option \<Rightarrow> HTMLCanvasElement \<Rightarrow> HTMLCanvasElement" where
  "run_cleanup cleanup c =
     (case cleanup of None \<Rightarrow> c | Some i \<Rightarrow> c\<lparr>listeners := listeners c - {i}\<rparr>)"

text \<open>\<open>dispose\<close> of \<open>Engine\<close> reads the property \<open>_engineCleanup\<close>.\<close>

definition Engine_dispose :: "Engine \<Rightarrow> Engine" where
  "Engine_dispose s =
     (Engine_stop s)\<lparr>canvas :=
        run_cleanup (engineCleanup (canvas (Engine_stop s))) (canvas (Engine_stop s))\<rparr>"

subsection \<open>EngineGL\<close>

definition EngineGL_frame :: "EngineGL \<Rightarrow> EngineGL outcome" where
  "EngineGL_frame s =
     (if \<not> running s then Returned s
      else case EngineGL_draw s of
             Threw x s1 \<Rightarrow> Threw x s1
           | Returned s1 \<Rightarrow>
               Returned (s1\<lparr>window := snd (requestAnimationFrame (window s1)),
                            animationFrame := Some (fst (requestAnimationFrame (window s1)))\<rparr>))"

definition EngineGL_start :: "EngineGL \<Rightarrow> EngineGL outcome" where
  "EngineGL_start s = (if running s then Returned s else EngineGL_frame (s\<lparr>running := True\<rparr>))"

text \<open>\<open>stop\<close> tests the truthiness of \<open>this.animationFrame\<close>: not for \<open>null\<close>, not for 0.\<close>

definition EngineGL_stop :: "EngineGL \<Rightarrow> EngineGL" where
  "EngineGL_stop s =
     s\<lparr>running := False,
       window := (case animationFrame s of
                    Some h \<Rightarrow> if h \<noteq> 0 then cancelAnimationFrame (window s) h else window s
                  | None \<Rightarrow> window s),
       animationFrame := None\<rparr>"

text \<open>\<open>dispose\<close> of \<open>EngineGL\<close> reads the property \<open>_engineCleanupGL\<close>.\<close>

definition EngineGL_dispose :: "EngineGL \<Rightarrow> EngineGL" where
  "EngineGL_dispose s =
     (EngineGL_stop s)\<lparr>canvas :=
        run_cleanup (engineCleanupGL (canvas (EngineGL_stop s))) (canvas (EngineGL_stop s))\<rparr>"

subsection \<open>EngineCanvas\<close>

definition EngineCanvas_frame :: "EngineCanvas \<Rightarrow> EngineCanvas outcome" where
  "EngineCanvas_frame s =
     (if \<not> running s then Returned s
      else case EngineCanvas_draw s of
             Threw x s1 \<Rightarrow> Threw x s1
           | Returned s1 \<Rightarrow>
               Returned (s1\<lparr>window := snd (requestAnimationFrame (window s1)),
                            animationFrame := Some (fst (requestAnimationFrame (window s1)))\<rparr>))"

definition EngineCanvas_start :: "EngineCanvas \<Rightarrow> EngineCanvas outcome" where
  "EngineCanvas_start s =
     (if running s then Returned s else EngineCanvas_frame (s\<lparr>running := True\<rparr>))"

definition EngineCanvas_stop :: "EngineCanvas \<Rightarrow> EngineCanvas" where
  "EngineCanvas_stop s =
     s\<lparr>running := False,
       window := (case animationFrame s of
                    Some h \<Rightarrow> if h \<noteq> 0 then cancelAnimationFrame (window s) h else window s
                  | None \<Rightarrow> window s),
       animationFrame := None\<rparr>"

text \<open>\<open>dispose\<close> of \<open>EngineCanvas\<close> reads the property \<open>_engineCleanupCanvas\<close>.\<close>

definition EngineCanvas_dispose :: "EngineCanvas \<Rightarrow> EngineCanvas" where
  "EngineCanvas_dispose s =
     (EngineCanvas_stop s)\<lparr>canvas :=
        run_cleanup (engineCleanupCanvas (canvas (EngineCanvas_stop s)))
          (canvas (EngineCanvas_stop s))\<rparr>"


section \<open>Construction: create and init\<close>

text \<open>
  \<open>setupEvents\<close> of each class registers the listeners of the engine and stores the
  cleanup closure on the canvas, under the property of its class.
\<close>

definition Engine_setupEvents :: "Engine \<Rightarrow> Engine" where
  "Engine_setupEvents s =
     s\<lparr>canvas := (canvas s)\<lparr>listeners := insert (ident s) (listeners (canvas s)),
                              engineCleanup := Some (ident s)\<rparr>\<rparr>"

definition EngineGL_setupEvents :: "EngineGL \<Rightarrow> EngineGL" where
  "EngineGL_setupEvents s =
     s\<lparr>canvas := (canvas s)\<lparr>listeners := insert (ident s) (listeners (canvas s)),
                              engineCleanupGL := Some (ident s)\<rparr>\<rparr>"

definition EngineCanvas_setupEvents :: "EngineCanvas \<Rightarrow> EngineCanvas" where
  "EngineCanvas_setupEvents s =
     s\<lparr>canvas := (canvas s)\<lparr>listeners := insert (ident s) (listeners (canvas s)),
                              engineCleanupCanvas := Some (ident s)\<rparr>\<rparr>"

subsection \<open>Engine (WebGPU)\<close>

text \<open>The constructor and the field initialisers, for the object of identity \<open>i\<close>.\<close>

definition Engine_new :: "HTMLCanvasElement \<Rightarrow> Window \<Rightarrow> nat \<Rightarrow> Engine" where
  "Engine_new c w i =
     \<lparr>ident = i, canvas = c, window = w, running = False, animationFrame = None,
      translation = \<lparr>tx = Num 0, ty = Num 0\<rparr>,
      pointer = \<lparr>dragging = False, lastX = 0, lastY = 0\<rparr>,
      effects = [],
      device = False, gpuContext = False, pipeline = False,
      needsUpload = True, vertexBuffer = False\<rparr>"

text \<open>
  \<open>init\<close>: each failed check logs to the console and returns; nothing is thrown by
  the source. Only a rejection of \<open>requestDevice\<close> leaves \<open>init\<close> through the
  \<open>await\<close>. \<open>createUniforms\<close> ends with \<open>uploadUniforms\<close>.
\<close>

definition Engine_init :: "Engine \<Rightarrow> Engine outcome" where
  "Engine_init s =
     (if \<not> gpu (window s) then Returned (s\<lparr>effects := effects s @ [ConsoleError]\<rparr>)
      else if \<not> adapter (window s) then Returned (s\<lparr>effects := effects s @ [ConsoleError]\<rparr>)
      else if \<not> deviceGranted (window s) then Threw OperationError s
      else if \<not> webgpuContext (canvas s)
        then Returned (s\<lparr>effects := effects s @ [ConsoleError], device := True\<rparr>)
      else
        case Engine_configureContext (s\<lparr>device := True, gpuContext := True\<rparr>) of
          Threw x s1 \<Rightarrow> Threw x s1
        | Returned s1 \<Rightarrow>
            (case Engine_uploadUniforms (s1\<lparr>pipeline := True\<rparr>) of
               Threw x s2 \<Rightarrow> Threw x s2
             | Returned s2 \<Rightarrow> Returned (Engine_setupEvents s2)))"

text \<open>\<open>create\<close> awaits \<open>init\<close> and resolves with the engine, whatever \<open>init\<close> did.\<close>

definition Engine_create :: "HTMLCanvasElement \<Rightarrow> Window \<Rightarrow> nat \<Rightarrow> Engine outcome" where
  "Engine_create c w i = Engine_init (Engine_new c w i)"

definition Engine_ready :: "Engine \<Rightarrow> bool" where
  "Engine_ready s =
     (device s \<and> gpuContext s \<and> pipeline s \<and> ident s \<in> listeners (canvas s))"

subsection \<open>EngineGL\<close>

definition EngineGL_new :: "HTMLCanvasElement \<Rightarrow> Window \<Rightarrow> nat \<Rightarrow> EngineGL" where
  "EngineGL_new c w i =
     \<lparr>ident = i, canvas = c, window = w, running = False, animationFrame = None,
      translation = \<lparr>tx = Num 0, ty = Num 0\<rparr>,
      pointer = \<lparr>dragging = False, lastX = 0, lastY = 0\<rparr>,
      effects = [],
      gl = False, program = False\<rparr>"

text \<open>\<open>getContext('webgl2') || getContext('webgl')\<close>, then \<open>setupGL\<close> and \<open>setupEvents\<close>.\<close>

definition EngineGL_init :: "EngineGL \<Rightarrow> EngineGL" where
  "EngineGL_init s =
     (if \<not> webglContext (canvas s) then s\<lparr>effects := effects s @ [ConsoleError]\<rparr>
      else EngineGL_setupEvents (s\<lparr>gl := True, program := True\<rparr>))"

definition EngineGL_create :: "HTMLCanvasElement \<Rightarrow> Window \<Rightarrow> nat \<Rightarrow> EngineGL outcome" where
  "EngineGL_create c w i = Returned (EngineGL_init (EngineGL_new c w i))"

definition EngineGL_ready :: "EngineGL \<Rightarrow> bool" where
  "EngineGL_ready s = (gl s \<and> program s \<and> ident s \<in> listeners (canvas s))"

subsection \<open>EngineCanvas\<close>

definition EngineCanvas_new :: "HTMLCanvasElement \<Rightarrow> Window \<Rightarrow> nat \<Rightarrow> EngineCanvas" where
  "EngineCanvas_new c w i =
     \<lparr>ident = i, canvas = c, window = w, running = False, animationFrame = None,
      translation = \<lparr>tx = Num 0, ty = Num 0\<rparr>,
      pointer = \<lparr>dragging = False, lastX = 0, lastY = 0\<rparr>,
      effects = [],
      ctx = False\<rparr>"

definition EngineCanvas_init :: "EngineCanvas \<Rightarrow> EngineCanvas" where
  "EngineCanvas_init s =
     (if \<not> context2d (canvas s) then s\<lparr>effects := effects s @ [ConsoleError]\<rparr>
      else EngineCanvas_setupEvents (s\<lparr>ctx := True\<rparr>))"

definition EngineCanvas_create :: "HTMLCanvasElement \<Rightarrow> Window \<Rightarrow> nat \<Rightarrow> EngineCanvas outcome" where
  "EngineCanvas_create c w i = Returned (EngineCanvas_init (EngineCanvas_new c w i))"

definition EngineCanvas_ready :: "EngineCanvas \<Rightarrow> bool" where
  "EngineCanvas_ready s = (ctx s \<and> ident s \<in> listeners (canvas s))"


section \<open>What reaches an engine: calls, frame ticks and DOM events\<close>

datatype event =
    Start | Stop | Dispose
  | Tick
  | PointerDown PointerEvent | PointerMove PointerEvent
  | PointerUp PointerEvent | PointerLeave PointerEvent
  | Resize

text \<open>
  A frame tick: the host takes the pending callbacks, empties the queue and calls them
  in order; an exception of one callback is reported and does not stop the others.
  A DOM event reaches a handler of an engine only while its listeners are registered; an exception
  thrown by a handler is reported by the host and the state stays as the handler left it.
\<close>

definition Engine_tick :: "Engine \<Rightarrow> Engine" where
  "Engine_tick s =
     foldl (\<lambda>a h. state_of (Engine_frame a))
       (s\<lparr>window := (window s)\<lparr>rafQueue := []\<rparr>\<rparr>) (rafQueue (window s))"

fun Engine_deliver :: "Engine \<Rightarrow> event \<Rightarrow> Engine" where
  "Engine_deliver s Start = state_of (Engine_start s)"
| "Engine_deliver s Stop = Engine_stop s"
| "Engine_deliver s Dispose = Engine_dispose s"
| "Engine_deliver s Tick = Engine_tick s"
| "Engine_deliver s (PointerDown e) =
     (if ident s \<in> listeners (canvas s) then state_of (Engine_onPointerDown s e) else s)"
| "Engine_deliver s (PointerMove e) =
     (if ident s \<in> listeners (canvas s) then Engine_onPointerMove s e else s)"
| "Engine_deliver s (PointerUp e) =
     (if ident s \<in> listeners (canvas s) then Engine_endDrag s e else s)"
| "Engine_deliver s (PointerLeave e) =
     (if ident s \<in> listeners (canvas s) then Engine_endDrag s e else s)"
| "Engine_deliver s Resize =
     (if ident s \<in> listeners (canvas s) then state_of (Engine_onResize s) else s)"

definition Engine_run :: "Engine \<Rightarrow> event list \<Rightarrow> Engine" where
  "Engine_run s evs = foldl Engine_deliver s evs"

definition EngineGL_tick :: "EngineGL \<Rightarrow> EngineGL" where
  "EngineGL_tick s =
     foldl (\<lambda>a h. state_of (EngineGL_frame a))
       (s\<lparr>window := (window s)\<lparr>rafQueue := []\<rparr>\<rparr>) (rafQueue (window s))"

fun EngineGL_deliver :: "EngineGL \<Rightarrow> event \<Rightarrow> EngineGL" where
  "EngineGL_deliver s Start = state_of (EngineGL_start s)"
| "EngineGL_deliver s Stop = EngineGL_stop s"
| "EngineGL_deliver s Dispose = EngineGL_dispose s"
| "EngineGL_deliver s Tick = EngineGL_tick s"
| "EngineGL_deliver s (PointerDown e) =
     (if ident s \<in> listeners (canvas s) then state_of (EngineGL_onPointerDown s e) else s)"
| "EngineGL_deliver s (PointerMove e) =
     (if ident s \<in> listeners (canvas s) then EngineGL_onPointerMove s e else s)"
| "EngineGL_deliver s (PointerUp e) =
     (if ident s \<in> listeners (canvas s) then EngineGL_endDrag s e else s)"
| "EngineGL_deliver s (PointerLeave e) =
     (if ident s \<in> listeners (canvas s) then EngineGL_endDrag s e else s)"
| "EngineGL_deliver s Resize =
     (if ident s \<in> listeners (canvas s) then EngineGL_onResize s else s)"

definition EngineGL_run :: "EngineGL \<Rightarrow> event list \<Rightarrow> EngineGL" where
  "EngineGL_run s evs = foldl EngineGL_deliver s evs"

definition EngineCanvas_tick :: "EngineCanvas \<Rightarrow> EngineCanvas" where
  "EngineCanvas_tick s =
     foldl (\<lambda>a h. state_of (EngineCanvas_frame a))
       (s\<lparr>window := (window s)\<lparr>rafQueue := []\<rparr>\<rparr>) (rafQueue (window s))"

fun EngineCanvas_deliver :: "EngineCanvas \<Rightarrow> event \<Rightarrow> EngineCanvas" where
  "EngineCanvas_deliver s Start = state_of (EngineCanvas_start s)"
| "EngineCanvas_deliver s Stop = EngineCanvas_stop s"
| "EngineCanvas_deliver s Dispose = EngineCanvas_dispose s"
| "EngineCanvas_deliver s Tick = EngineCanvas_tick s"
| "EngineCanvas_deliver s (PointerDown e) =
     (if ident s \<in> listeners (canvas s) then state_of (EngineCanvas_onPointerDown s e) else s)"
| "EngineCanvas_deliver s (PointerMove e) =
     (if ident s \<in> listeners (canvas s) then EngineCanvas_onPointerMove s e else s)"
| "EngineCanvas_deliver s (PointerUp e) =
     (if ident s \<in> listeners (canvas s) then EngineCanvas_endDrag s e else s)"
| "EngineCanvas_deliver s (PointerLeave e) =
     (if ident s \<in> listeners (canvas s) then EngineCanvas_endDrag s e else s)"
| "EngineCanvas_deliver s Resize =
     (if ident s \<in> listeners (canvas s) then EngineCanvas_onResize s else s)"

definition EngineCanvas_run :: "EngineCanvas \<Rightarrow> event list \<Rightarrow> EngineCanvas" where
  "EngineCanvas_run s evs = foldl EngineCanvas_deliver s evs"

text \<open>The number of draw calls an engine has issued.\<close>

definition draws :: "effect list \<Rightarrow> nat" where
  "draws es = count_list es DrawCall"


section \<open>The orchestrator (App.svelte)\<close>

text \<open>\<open>type Mode = "webgpu" | "webgl" | "canvas"\<close>.\<close>

datatype Mode = Mode_webgpu | Mode_webgl | Mode_canvas

datatype Power = Power_default | Power_high_performance | Power_low_power

text \<open>What the orchestrator does to backends, in the order it does it.\<close>

datatype action = Disposed Mode | Created Mode | Started Mode

text \<open>
  The variables of the component. \<open>engine\<close> holds the kind of the live instance, or
  \<open>None\<close> for \<open>null\<close>. \<open>canvasKey\<close> is \<open>`${mode}`\<close> at first and
  \<open>`${mode}-${Date.now()}`\<close> afterwards: the mode and, optionally, the time stamp.
\<close>

record App =
  preferred :: Mode
  mode :: Mode
  engine :: "Mode option"
  supportedWebGPU :: bool
  glDesync :: bool
  canvasDesync :: bool
  glPower :: Power
  gpuPower :: Power
  canvasKey :: "Mode \<times> nat option"
  actions :: "action list"







fun nextMode :: "Mode \<Rightarrow> Mode" where
  "nextMode current =
     (if current = Mode_webgl then Mode_webgpu
      else if current = Mode_webgpu then Mode_canvas
      else Mode_webgl)"

text \<open>The argument \<open>now\<close> of the next five functions is the value of \<open>Date.now()\<close>.\<close>

definition toggle :: "nat \<Rightarrow> App \<Rightarrow> App" where
  "toggle now a = a\<lparr>mode := nextMode (mode a), canvasKey := (nextMode (mode a), Some now)\<rparr>"







subsection \<open>The template: buttons, the keyed canvas and the reactive statement\<close>









section \<open>The drag update in the words of the specification\<close>

text \<open>
  The pixel delta is divided by half the CSS width and height, added to the first
  component, its negation added to the second, and both are clamped; the operations are
  those of the numbers above.
\<close>

definition spec_drag_update :: "Vec2 \<Rightarrow> number \<Rightarrow> number \<Rightarrow> nat \<Rightarrow> nat \<Rightarrow> Vec2" where
  "spec_drag_update t dx dy w h =
     \<lparr>tx = clamp2 (js_add (tx t) (js_div dx (js_div (Num (real w)) (Num 2)))),
      ty = clamp2 (js_add (ty t) (js_neg (js_div dy (js_div (Num (real h)) (Num 2)))))\<rparr>"


section \<open>Concrete hosts\<close>

text \<open>
  The canvas of App.svelte (640 by 400 CSS pixels, buffer of the same size) in a window
  that has every capability, with one active pointer, at a pixel ratio of 1.
\<close>

definition canvas640 :: HTMLCanvasElement where
  "canvas640 =
     \<lparr>clientWidth = 640, clientHeight = 400, width = 640, height = 400, sizeWrites = 0,
      capture = {}, listeners = {},
      engineCleanup = None, engineCleanupGL = None, engineCleanupCanvas = None,
      webgpuContext = True, webglContext = True, context2d = True\<rparr>"

definition window0 :: Window where
  "window0 =
     \<lparr>devicePixelRatio = 1, gpu = True, adapter = True, deviceGranted = True,
      activePointers = {1}, rafQueue = [], rafCounter = 0\<rparr>"

text \<open>An event of pointer 1 at the given client position.\<close>

definition pointer_at :: "real \<Rightarrow> real \<Rightarrow> PointerEvent" where
  "pointer_at px py = \<lparr>clientX = px, clientY = py, pointerId = 1\<rparr>"

text \<open>
  Three engines, of identities 1, 2 and 3, each created on that canvas and started: one
  frame has been drawn and the next one is scheduled.
\<close>

definition Engine_started :: Engine where
  "Engine_started = state_of (Engine_start (state_of (Engine_create canvas640 window0 1)))"

definition EngineGL_started :: EngineGL where
  "EngineGL_started = state_of (EngineGL_start (state_of (EngineGL_create canvas640 window0 2)))"

definition EngineCanvas_started :: EngineCanvas where
  "EngineCanvas_started =
     state_of (EngineCanvas_start (state_of (EngineCanvas_create canvas640 window0 3)))"


text \<open>The double nearest to \<open>1.2\<close>, and the window at that pixel ratio.\<close>

definition double_1_2 :: real where
  "double_1_2 = 5404319552844595 / 2 ^ 52"

definition window_1_2 :: Window where
  "window_1_2 = window0\<lparr>devicePixelRatio := double_1_2\<rparr>"


section \<open>Properties\<close>

subsection \<open>Rounding\<close>

text \<open>
  The exponent brackets a positive real between two consecutive powers of two, and no
  other integer does.
\<close>

lemma expo_bounds:
  assumes "0 < x"
  shows "2 powi expo x \<le> x \<and> x < 2 powi (expo x + 1)"
proof (cases "1 \<le> x")
  case True
  define n where "n = \<lfloor>x\<rfloor>"
  have n: "0 < n" using True by (simp add: n_def)
  have b: "1 \<le> bitlen n" using n by (simp add: bitlen_alt_def)
  from bitlen_bounds [OF n] have lo: "2 ^ nat (bitlen n - 1) \<le> n" and hi: "n < 2 ^ nat (bitlen n)"
    by simp_all
  have e: "expo x = bitlen n - 1" using True by (simp add: expo_def n_def)
  have "(2::real) powi (bitlen n - 1) = 2 ^ nat (bitlen n - 1)"
    using b by (simp add: power_int_nonneg_exp)
  also have "\<dots> = of_int (2 ^ nat (bitlen n - 1))" by simp
  also have "\<dots> \<le> of_int n" using lo by (simp only: of_int_le_iff)
  also have "\<dots> \<le> x" by (simp add: n_def)
  finally have 1: "2 powi expo x \<le> x" by (simp add: e)
  have "n + 1 \<le> 2 ^ nat (bitlen n)" using hi by simp
  then have "of_int (n + 1) \<le> (of_int (2 ^ nat (bitlen n)) :: real)" by (simp only: of_int_le_iff)
  moreover have "x < of_int (n + 1)" by (simp add: n_def)
  ultimately have "x < 2 ^ nat (bitlen n)" by simp
  also have "\<dots> = 2 powi (bitlen n)" using b by (simp add: power_int_nonneg_exp)
  finally have 2: "x < 2 powi (expo x + 1)" by (simp add: e)
  from 1 2 show ?thesis ..
next
  case False
  define y where "y = 1 / x"
  define n where "n = \<lfloor>y\<rfloor>"
  define j where "j = nat (bitlen n - 1)"
  have y: "1 < y" "0 < y" using False assms by (simp_all add: y_def)
  have x: "x = 1 / y" using assms by (simp add: y_def)
  have n: "0 < n" using y by (simp add: n_def)
  have b: "1 \<le> bitlen n" using n by (simp add: bitlen_alt_def)
  have bj: "bitlen n = int j + 1" using b unfolding j_def by linarith
  have sj: "nat (bitlen n) = Suc j" using b unfolding j_def by linarith
  from bitlen_bounds [OF n] have lo: "2 ^ j \<le> n"
    unfolding j_def by simp
  from bitlen_bounds [OF n] have hi: "n < 2 ^ Suc j"
    unfolding sj by simp
  have "(2::real) ^ j = of_int (2 ^ j)" by simp
  also have "\<dots> \<le> of_int n" using lo by (simp only: of_int_le_iff)
  also have "\<dots> \<le> y" by (simp add: n_def)
  finally have ylo: "2 ^ j \<le> y" .
  have "n + 1 \<le> 2 ^ Suc j" using hi by simp
  then have "of_int (n + 1) \<le> (of_int (2 ^ Suc j) :: real)" by (simp only: of_int_le_iff)
  moreover have "y < of_int (n + 1)" by (simp add: n_def)
  ultimately have yhi: "y < 2 ^ Suc j" by simp
  have xhi: "x \<le> 1 / 2 ^ j" using ylo y unfolding x by (simp add: field_simps)
  have xlo: "1 / 2 ^ Suc j < x" using yhi y unfolding x by (simp add: field_simps)
  have p1: "(2::real) powi (- int j) = 1 / 2 ^ j" by (simp add: power_int_minus_divide)
  have p2: "(2::real) powi (- int j - 1) = 1 / 2 ^ Suc j"
  proof -
    have "- int j - 1 = - int (Suc j)" by simp
    then show ?thesis by (simp only: power_int_minus_divide power_int_of_nat)
  qed
  show ?thesis
  proof (cases "x * 2 ^ j = 1")
    case True
    then have xe: "x = 1 / 2 ^ j" by (simp add: field_simps)
    have "x * 2 ^ nat (bitlen \<lfloor>1 / x\<rfloor> - 1) = 1"
      using True unfolding j_def n_def y_def .
    then have e: "expo x = - int j"
      using False bj unfolding expo_def n_def y_def by simp
    have "(2::real) powi (- int j + 1) = 2 powi (- int j) * 2"
      by (rule power_int_add_1) simp
    then have "(2::real) powi (- int j + 1) = 2 * x"
      using p1 xe by simp
    then have "(2::real) powi (expo x + 1) = 2 * x"
      by (simp only: e)
    moreover have "0 < x" by (rule assms)
    ultimately have "x < 2 powi (expo x + 1)" by simp
    moreover have "2 powi expo x \<le> x" using xe e p1 by simp
    ultimately show ?thesis by simp
  next
    case ne: False
    then have "x \<noteq> 1 / 2 ^ j" by (auto simp add: field_simps)
    with xhi have xhi': "x < 1 / 2 ^ j" by simp
    have "x * 2 ^ nat (bitlen \<lfloor>1 / x\<rfloor> - 1) \<noteq> 1"
      using ne unfolding j_def n_def y_def .
    then have e: "expo x = - int j - 1"
      using False bj unfolding expo_def n_def y_def by simp
    have "2 powi expo x \<le> x" using xlo e p2 by simp
    moreover have "x < 2 powi (expo x + 1)" using xhi' e p1 by simp
    ultimately show ?thesis by simp
  qed
qed

lemma expo_unique:
  assumes "0 < x" and "2 powi e \<le> x" and "x < 2 powi (e + 1)"
  shows "expo x = e"
proof -
  from expo_bounds [OF assms(1)] have lo: "2 powi expo x \<le> x" and hi: "x < 2 powi (expo x + 1)"
    by simp_all
  have "(2::real) powi e < 2 powi (expo x + 1)" using assms(2) hi by simp
  then have 1: "e < expo x + 1"
    using power_int_increasing [of "expo x + 1" e "2::real"] by (cases "e < expo x + 1") auto
  have "(2::real) powi expo x < 2 powi (e + 1)" using lo assms(3) by simp
  then have 2: "expo x < e + 1"
    using power_int_increasing [of "e + 1" "expo x" "2::real"] by (cases "expo x < e + 1") auto
  from 1 2 show ?thesis by simp
qed


text \<open>Rounding leaves an integer multiple of the spacing as it is.\<close>

lemma round_half_even_of_int [simp]: "round_half_even (of_int z) = z"
  by (simp add: round_half_even_def)

lemma ulp_at:
  assumes "2 powi e \<le> \<bar>x\<bar>" and "\<bar>x\<bar> < 2 powi (e + 1)"
  shows "ulp x = 2 powi (max e (- 1022) - 52)"
proof -
  have "0 < (2::real) powi e" by simp
  with assms(1) have "0 < \<bar>x\<bar>" by linarith
  from expo_unique [OF this assms] show ?thesis by (simp add: ulp_def)
qed

lemma ulp_pos: "0 < ulp x"
  by (simp add: ulp_def)

lemma round_double_not_NaN [simp]: "round_double x \<noteq> NaN"
  by (simp add: round_double_def)

lemma round_double_0 [simp]: "round_double 0 = Num 0"
  by (simp add: round_double_def)

text \<open>
  A real \<open>m * 2^k\<close> with \<open>|m| < 2^53\<close> and \<open>-1074 \<le> k \<le> 971\<close> is a double:
  rounding returns it.
\<close>

lemma round_double_exact:
  assumes x: "x = of_int m * 2 powi k"
    and m: "\<bar>m\<bar> < 2 ^ 53" and k: "- 1074 \<le> k" "k \<le> 971"
  shows "round_double x = Num x"
proof (cases "m = 0")
  case True
  then show ?thesis by (simp add: x)
next
  case False
  have pk: "0 < (2::real) powi k" by simp
  have ax: "\<bar>x\<bar> = of_int \<bar>m\<bar> * 2 powi k"
    by (simp add: x abs_mult)
  have "0 < \<bar>m\<bar>" using False by simp
  then have "0 < real_of_int \<bar>m\<bar>" by (simp only: of_int_0_less_iff)
  then have xpos: "0 < \<bar>x\<bar>" unfolding ax using pk by (rule mult_pos_pos)
  define e where "e = expo \<bar>x\<bar>"
  from expo_bounds [OF xpos] have lo: "2 powi e \<le> \<bar>x\<bar>" by (simp add: e_def)
  have "real_of_int \<bar>m\<bar> < of_int (2 ^ 53)" using m by (simp only: of_int_less_iff)
  then have "real_of_int \<bar>m\<bar> < 2 powi 53" by simp
  then have "\<bar>x\<bar> < 2 powi 53 * 2 powi k"
    unfolding ax using pk by (rule mult_strict_right_mono)
  also have "\<dots> = 2 powi (53 + k)" by (simp add: power_int_add)
  finally have hi: "\<bar>x\<bar> < 2 powi (53 + k)" .
  from lo hi have "(2::real) powi e < 2 powi (53 + k)" by simp
  then have e: "e < 53 + k"
    using power_int_increasing [of "53 + k" e "2::real"] by (cases "e < 53 + k") auto
  define d where "d = k - (max e (- 1022) - 52)"
  have d: "0 \<le> d" using e k by (simp add: d_def)
  have u: "ulp x = 2 powi (max e (- 1022) - 52)" by (simp add: ulp_def e_def)
  have "(2::real) powi k = 2 powi (d + (max e (- 1022) - 52))" by (simp add: d_def)
  also have "\<dots> = 2 powi d * 2 powi (max e (- 1022) - 52)" by (simp add: power_int_add)
  finally have "(2::real) powi k = 2 powi d * ulp x" by (simp add: u)
  then have xu: "x = of_int m * 2 powi d * ulp x" by (simp add: x)
  have "x / ulp x = of_int m * 2 powi d"
    using ulp_pos [of x] by (subst xu) simp
  also have "\<dots> = of_int (m * 2 ^ nat d)"
    using d by (simp add: power_int_nonneg_exp)
  finally have q: "x / ulp x = of_int (m * 2 ^ nat d)" .
  have r: "of_int (round_half_even (x / ulp x)) * ulp x = x"
  proof -
    have "of_int (round_half_even (x / ulp x)) * ulp x = x / ulp x * ulp x"
      by (simp only: q round_half_even_of_int)
    then show ?thesis using ulp_pos [of x] by simp
  qed
  have "(2::real) powi (53 + k) \<le> 2 powi 1024"
    using k by (intro power_int_increasing) simp_all
  with hi have "\<not> 2 powi 1024 \<le> \<bar>x\<bar>" by simp
  moreover have "x \<noteq> 0" using xpos by simp
  ultimately show ?thesis
    unfolding round_double_def r by simp
qed

lemma round_double_of_int: "\<bar>m\<bar> < 2 ^ 53 \<Longrightarrow> round_double (of_int m) = Num (of_int m)"
  using round_double_exact [of "of_int m" m 0] by simp

lemma round_double_half_int:
  "\<bar>m\<bar> < 2 ^ 53 \<Longrightarrow> round_double (of_int m / 2) = Num (of_int m / 2)"
  using round_double_exact [of "of_int m / 2" m "- 1"] by (simp add: power_int_minus_divide)

lemma round_double_numeral [simp]:
  "numeral n < (2::int) ^ 53 \<Longrightarrow> round_double (numeral n) = Num (numeral n)"
  using round_double_of_int [of "numeral n"] by simp

lemma round_double_neg_numeral [simp]:
  "numeral n < (2::int) ^ 53 \<Longrightarrow> round_double (- numeral n) = Num (- numeral n)"
  using round_double_of_int [of "- numeral n"] by simp

lemma round_double_1 [simp]: "round_double 1 = Num 1"
  using round_double_of_int [of 1] by simp

lemma round_double_dyadic:
  "\<bar>m\<bar> < 2 ^ 53 \<Longrightarrow> n \<le> 1074 \<Longrightarrow> round_double (of_int m / 2 ^ n) = Num (of_int m / 2 ^ n)"
  using round_double_exact [of "of_int m / 2 ^ n" m "- int n"]
  by (simp add: power_int_minus_divide)

lemma round_double_values [simp]:
  "round_double (1 / 2) = Num (1 / 2)"
  "round_double (3 / 2) = Num (3 / 2)"
  "round_double (5 / 2) = Num (5 / 2)"
  "round_double (1 / 4) = Num (1 / 4)"
  "round_double (- (1 / 4)) = Num (- (1 / 4))"
  using round_double_dyadic [of 1 1] round_double_dyadic [of 3 1] round_double_dyadic [of 5 1]
    round_double_dyadic [of 1 2] round_double_dyadic [of "- 1" 2]
  by simp_all

text \<open>One tenth is not a double; it rounds to \<open>3602879701896397 / 2^55\<close>.\<close>

lemma round_double_tenth: "round_double (1 / 10) = Num (3602879701896397 / 2 ^ 55)"
proof -
  have "ulp (1 / 10) = 2 powi (max (- 4) (- 1022) - 52)"
    by (rule ulp_at) (simp_all add: power_int_minus_divide)
  then have u: "ulp (1 / 10) = 1 / 2 ^ 56" by (simp add: power_int_minus_divide)
  show ?thesis
    unfolding round_double_def u by (simp add: round_half_even_def)
qed


subsection \<open>Numbers and the clamp\<close>

lemma clamp2_Num: "clamp2 (Num a) = Num (max (- 2) (min 2 a))"
  by (simp add: clamp2_def Math_max_def Math_min_def max_def min_def)

lemma clamp2_special: "clamp2 PosInf = Num 2" "clamp2 NegInf = Num (- 2)" "clamp2 NaN = NaN"
  by (simp_all add: clamp2_def Math_max_def Math_min_def)

lemma clamp2_in_range: "v \<noteq> NaN \<Longrightarrow> in_range (- 2) 2 (clamp2 v)"
  by (cases v) (simp_all add: clamp2_Num clamp2_special)

lemma in_range_not_NaN: "in_range lo hi v \<Longrightarrow> v \<noteq> NaN"
  by (cases v) simp_all

text \<open>Half of a CSS size below \<open>2^53\<close> is computed exactly.\<close>

lemma half_size: "w < 2 ^ 53 \<Longrightarrow> js_div (Num (real w)) (Num 2) = Num (real w / 2)"
proof -
  assume "w < 2 ^ 53"
  then have "\<bar>int w\<bar> < 2 ^ 53" by (simp add: nat_less_numeral_power_cancel_iff)
  from round_double_half_int [OF this] show ?thesis by simp
qed

text \<open>Sums, differences and quotients by a positive finite number are \<open>NaN\<close> only from \<open>NaN\<close>.\<close>

lemma js_add_Num_not_NaN: "v \<noteq> NaN \<Longrightarrow> js_add (Num a) v \<noteq> NaN"
  by (cases v) simp_all

lemma js_sub_Num_Num_not_NaN: "js_sub (Num a) (Num b) \<noteq> NaN"
  by (simp add: js_sub_def)

lemma js_div_pos_not_NaN: "v \<noteq> NaN \<Longrightarrow> 0 < p \<Longrightarrow> js_div v (Num p) \<noteq> NaN"
  by (cases v) simp_all

lemma js_neg_not_NaN: "v \<noteq> NaN \<Longrightarrow> js_neg v \<noteq> NaN"
  by (cases v) simp_all




subsection \<open>The drag update\<close>




subsection \<open>The mode cycle\<close>

text \<open>
  C6. For every mode, three applications of the successor function \<open>nextMode\<close>
  return the mode: the cycle is rasterized (webgl), accelerated (webgpu), software
  (canvas), rasterized; \<open>toggle\<close> replaces the mode of the component by its successor,
  and three calls of \<open>toggle\<close> restore it.
\<close>

theorem nextMode_three_cycle:
  "nextMode (nextMode (nextMode m)) = m
   \<and> nextMode Mode_webgl = Mode_webgpu
   \<and> nextMode Mode_webgpu = Mode_canvas
   \<and> nextMode Mode_canvas = Mode_webgl
   \<and> mode (toggle n3 (toggle n2 (toggle n1 a))) = mode a
   \<and> mode (toggle n1 a) = nextMode (mode a)"
  by (cases m; cases "mode a"; simp add: toggle_def)


subsection \<open>Pointer moves outside a drag\<close>

text \<open>
  C10. In each of the three backends a pointer-move event received while the pointer
  state is not dragging changes nothing: the translation, the pointer state and every
  other field stay as they are.
\<close>

theorem pointer_move_idle_noop:
  "(\<not> dragging (pointer s) \<longrightarrow> Engine_onPointerMove s e = s)
   \<and> (\<not> dragging (pointer g) \<longrightarrow> EngineGL_onPointerMove g e = g)
   \<and> (\<not> dragging (pointer c) \<longrightarrow> EngineCanvas_onPointerMove c e = c)"
  by (simp add: Engine_onPointerMove_def EngineGL_onPointerMove_def
      EngineCanvas_onPointerMove_def)

theorem pointer_move_idle_noop_witness:
  "\<not> dragging (pointer (Engine_new canvas640 window0 1))
   \<and> Engine_onPointerMove (Engine_new canvas640 window0 1) (pointer_at 400 250)
       = Engine_new canvas640 window0 1
   \<and> \<not> dragging (pointer (EngineGL_new canvas640 window0 2))
   \<and> EngineGL_onPointerMove (EngineGL_new canvas640 window0 2) (pointer_at 400 250)
       = EngineGL_new canvas640 window0 2
   \<and> \<not> dragging (pointer (EngineCanvas_new canvas640 window0 3))
   \<and> EngineCanvas_onPointerMove (EngineCanvas_new canvas640 window0 3) (pointer_at 400 250)
       = EngineCanvas_new canvas640 window0 3"
  using pointer_move_idle_noop [of "Engine_new canvas640 window0 1" "pointer_at 400 250"
      "EngineGL_new canvas640 window0 2" "EngineCanvas_new canvas640 window0 3"]
  by (simp add: Engine_new_def EngineGL_new_def EngineCanvas_new_def)


subsection \<open>The clamping invariant\<close>

text \<open>The pointer-move handlers leave the canvas as it is.\<close>

lemma Engine_move_canvas: "canvas (Engine_onPointerMove s e) = canvas s"
  by (simp add: Engine_onPointerMove_def Let_def)

lemma EngineGL_move_canvas: "canvas (EngineGL_onPointerMove s e) = canvas s"
  by (simp add: EngineGL_onPointerMove_def Let_def)

lemma EngineCanvas_move_canvas: "canvas (EngineCanvas_onPointerMove s e) = canvas s"
  by (simp add: EngineCanvas_onPointerMove_def Let_def)

text \<open>
  On a surface of positive CSS size (a \<open>long\<close>, so below \<open>2^31\<close>) the update of the
  specification maps a translation within \<open>[-2, 2]\<close> to a translation within
  \<open>[-2, 2]\<close>, whatever the delta is, an infinite one included.
\<close>

lemma spec_drag_update_in_range:
  assumes "0 < w" "w < 2 ^ 31" "0 < h" "h < 2 ^ 31"
    and "in_range (- 2) 2 (tx t)" "in_range (- 2) 2 (ty t)"
    and "dx \<noteq> NaN" "dy \<noteq> NaN"
  shows "in_range (- 2) 2 (tx (spec_drag_update t dx dy w h))
       \<and> in_range (- 2) 2 (ty (spec_drag_update t dx dy w h))"
proof -
  from assms(5,6) obtain a b where t: "tx t = Num a" "ty t = Num b"
    by (cases "tx t"; cases "ty t"; simp)
  have "w < 2 ^ 53" "h < 2 ^ 53" using assms(2,4) by simp_all
  then have hw: "js_div (Num (real w)) (Num 2) = Num (real w / 2)"
    and hh: "js_div (Num (real h)) (Num 2) = Num (real h / 2)"
    by (simp_all only: half_size)
  have "js_div dx (Num (real w / 2)) \<noteq> NaN"
    using assms(1,7) by (intro js_div_pos_not_NaN) simp_all
  then have x: "js_add (Num a) (js_div dx (Num (real w / 2))) \<noteq> NaN"
    by (rule js_add_Num_not_NaN)
  have "js_div dy (Num (real h / 2)) \<noteq> NaN"
    using assms(3,8) by (intro js_div_pos_not_NaN) simp_all
  then have "js_neg (js_div dy (Num (real h / 2))) \<noteq> NaN"
    by (rule js_neg_not_NaN)
  then have y: "js_add (Num b) (js_neg (js_div dy (Num (real h / 2)))) \<noteq> NaN"
    by (rule js_add_Num_not_NaN)
  show ?thesis
    unfolding spec_drag_update_def Vec2.simps hw hh t
    by (intro conjI clamp2_in_range x y)
qed

text \<open>
  So does each handler, and so does every sequence of pointer-move events, for each of
  the three backends.
\<close>

lemma Engine_move_in_range:
  assumes "0 < clientWidth (canvas s)" "clientWidth (canvas s) < 2 ^ 31"
    and "0 < clientHeight (canvas s)" "clientHeight (canvas s) < 2 ^ 31"
    and "in_range (- 2) 2 (tx (translation s))" "in_range (- 2) 2 (ty (translation s))"
  shows "in_range (- 2) 2 (tx (translation (Engine_onPointerMove s e)))
       \<and> in_range (- 2) 2 (ty (translation (Engine_onPointerMove s e)))"
proof (cases "dragging (pointer s)")
  case True
  have "translation (Engine_onPointerMove s e) =
           spec_drag_update (translation s)
             (js_sub (Num (clientX e)) (Num (lastX (pointer s))))
             (js_sub (Num (clientY e)) (Num (lastY (pointer s))))
             (clientWidth (canvas s)) (clientHeight (canvas s))"
    using True by (simp add: Engine_onPointerMove_def spec_drag_update_def js_sub_def Let_def)
  then show ?thesis
    using assms spec_drag_update_in_range js_sub_Num_Num_not_NaN by simp
next
  case False
  then show ?thesis using assms by (simp add: Engine_onPointerMove_def)
qed

lemma Engine_moves_in_range:
  assumes "0 < clientWidth (canvas s)" "clientWidth (canvas s) < 2 ^ 31"
    and "0 < clientHeight (canvas s)" "clientHeight (canvas s) < 2 ^ 31"
    and "in_range (- 2) 2 (tx (translation s))" "in_range (- 2) 2 (ty (translation s))"
  shows "in_range (- 2) 2 (tx (translation (foldl Engine_onPointerMove s es)))
       \<and> in_range (- 2) 2 (ty (translation (foldl Engine_onPointerMove s es)))"
  using assms
proof (induction es arbitrary: s)
  case Nil
  then show ?case by simp
next
  case (Cons e es)
  have "in_range (- 2) 2 (tx (translation (Engine_onPointerMove s e)))
       \<and> in_range (- 2) 2 (ty (translation (Engine_onPointerMove s e)))"
    using Cons.prems by (rule Engine_move_in_range)
  with Cons.IH [of "Engine_onPointerMove s e"] Cons.prems show ?case
    by (simp add: Engine_move_canvas)
qed

lemma EngineGL_move_in_range:
  assumes "0 < clientWidth (canvas s)" "clientWidth (canvas s) < 2 ^ 31"
    and "0 < clientHeight (canvas s)" "clientHeight (canvas s) < 2 ^ 31"
    and "in_range (- 2) 2 (tx (translation s))" "in_range (- 2) 2 (ty (translation s))"
  shows "in_range (- 2) 2 (tx (translation (EngineGL_onPointerMove s e)))
       \<and> in_range (- 2) 2 (ty (translation (EngineGL_onPointerMove s e)))"
proof (cases "dragging (pointer s)")
  case True
  have "translation (EngineGL_onPointerMove s e) =
           spec_drag_update (translation s)
             (js_sub (Num (clientX e)) (Num (lastX (pointer s))))
             (js_sub (Num (clientY e)) (Num (lastY (pointer s))))
             (clientWidth (canvas s)) (clientHeight (canvas s))"
    using True by (simp add: EngineGL_onPointerMove_def spec_drag_update_def js_sub_def Let_def)
  then show ?thesis
    using assms spec_drag_update_in_range js_sub_Num_Num_not_NaN by simp
next
  case False
  then show ?thesis using assms by (simp add: EngineGL_onPointerMove_def)
qed

lemma EngineGL_moves_in_range:
  assumes "0 < clientWidth (canvas s)" "clientWidth (canvas s) < 2 ^ 31"
    and "0 < clientHeight (canvas s)" "clientHeight (canvas s) < 2 ^ 31"
    and "in_range (- 2) 2 (tx (translation s))" "in_range (- 2) 2 (ty (translation s))"
  shows "in_range (- 2) 2 (tx (translation (foldl EngineGL_onPointerMove s es)))
       \<and> in_range (- 2) 2 (ty (translation (foldl EngineGL_onPointerMove s es)))"
  using assms
proof (induction es arbitrary: s)
  case Nil
  then show ?case by simp
next
  case (Cons e es)
  have "in_range (- 2) 2 (tx (translation (EngineGL_onPointerMove s e)))
       \<and> in_range (- 2) 2 (ty (translation (EngineGL_onPointerMove s e)))"
    using Cons.prems by (rule EngineGL_move_in_range)
  with Cons.IH [of "EngineGL_onPointerMove s e"] Cons.prems show ?case
    by (simp add: EngineGL_move_canvas)
qed

lemma EngineCanvas_move_in_range:
  assumes "0 < clientWidth (canvas s)" "clientWidth (canvas s) < 2 ^ 31"
    and "0 < clientHeight (canvas s)" "clientHeight (canvas s) < 2 ^ 31"
    and "in_range (- 2) 2 (tx (translation s))" "in_range (- 2) 2 (ty (translation s))"
  shows "in_range (- 2) 2 (tx (translation (EngineCanvas_onPointerMove s e)))
       \<and> in_range (- 2) 2 (ty (translation (EngineCanvas_onPointerMove s e)))"
proof (cases "dragging (pointer s)")
  case True
  have "translation (EngineCanvas_onPointerMove s e) =
           spec_drag_update (translation s)
             (js_sub (Num (clientX e)) (Num (lastX (pointer s))))
             (js_sub (Num (clientY e)) (Num (lastY (pointer s))))
             (clientWidth (canvas s)) (clientHeight (canvas s))"
    using True by (simp add: EngineCanvas_onPointerMove_def spec_drag_update_def js_sub_def Let_def)
  then show ?thesis
    using assms spec_drag_update_in_range js_sub_Num_Num_not_NaN by simp
next
  case False
  then show ?thesis using assms by (simp add: EngineCanvas_onPointerMove_def)
qed

lemma EngineCanvas_moves_in_range:
  assumes "0 < clientWidth (canvas s)" "clientWidth (canvas s) < 2 ^ 31"
    and "0 < clientHeight (canvas s)" "clientHeight (canvas s) < 2 ^ 31"
    and "in_range (- 2) 2 (tx (translation s))" "in_range (- 2) 2 (ty (translation s))"
  shows "in_range (- 2) 2 (tx (translation (foldl EngineCanvas_onPointerMove s es)))
       \<and> in_range (- 2) 2 (ty (translation (foldl EngineCanvas_onPointerMove s es)))"
  using assms
proof (induction es arbitrary: s)
  case Nil
  then show ?case by simp
next
  case (Cons e es)
  have "in_range (- 2) 2 (tx (translation (EngineCanvas_onPointerMove s e)))
       \<and> in_range (- 2) 2 (ty (translation (EngineCanvas_onPointerMove s e)))"
    using Cons.prems by (rule EngineCanvas_move_in_range)
  with Cons.IH [of "EngineCanvas_onPointerMove s e"] Cons.prems show ?case
    by (simp add: EngineCanvas_move_canvas)
qed

text \<open>Once a component is \<open>NaN\<close>, every later update leaves it \<open>NaN\<close>.\<close>

lemma NaN_sticks:
  "tx (translation s) = NaN \<Longrightarrow> tx (translation (Engine_onPointerMove s e)) = NaN"
  "tx (translation g) = NaN \<Longrightarrow> tx (translation (EngineGL_onPointerMove g e)) = NaN"
  "tx (translation c) = NaN \<Longrightarrow> tx (translation (EngineCanvas_onPointerMove c e)) = NaN"
  by (simp_all add: Engine_onPointerMove_def EngineGL_onPointerMove_def
      EngineCanvas_onPointerMove_def Let_def clamp2_special)

text \<open>
  The scenario of the specification: on the 640 pixels wide surface, ten drags of 160
  pixels each add \<open>0.5\<close> to the first component; it is \<open>2\<close> after the fourth and
  stays exactly \<open>2\<close>.
\<close>

lemma ten_drags_saturate:
  "map (\<lambda>n. tx (translation (foldl Engine_onPointerMove
      (state_of (Engine_onPointerDown (Engine_new canvas640 window0 1) (pointer_at 0 0)))
      (take n [pointer_at 160 0, pointer_at 320 0, pointer_at 480 0, pointer_at 640 0,
       pointer_at 800 0, pointer_at 960 0, pointer_at 1120 0, pointer_at 1280 0,
       pointer_at 1440 0, pointer_at 1600 0])))) [1, 2, 3, 4, 5, 6, 7, 8, 9, 10]
   = [Num (1/2), Num 1, Num (3/2), Num 2, Num 2, Num 2, Num 2, Num 2, Num 2, Num 2]"
  by (simp add: Engine_onPointerDown_def Engine_onPointerMove_def Engine_new_def
      setPointerCapture_def window0_def canvas640_def pointer_at_def clamp2_Num js_sub_def)

text \<open>
  The arithmetic rounds as the program does: three drags of 32 pixels each add the
  double nearest to \<open>0.1\<close>, and the sum is \<open>0.30000000000000004\<close>, the double after
  the one nearest to \<open>0.3\<close>.
\<close>

lemma three_tenths:
  "tx (translation (foldl Engine_onPointerMove
      (state_of (Engine_onPointerDown (Engine_new canvas640 window0 1) (pointer_at 0 0)))
      [pointer_at 32 0, pointer_at 64 0, pointer_at 96 0]))
   = Num (5404319552844596 / 2 ^ 54)"
proof -
  have t2: "round_double (3602879701896397 / 2 ^ 54) = Num (3602879701896397 / 2 ^ 54)"
    using round_double_dyadic [of 3602879701896397 54] by simp
  have "ulp (3602879701896397 / 2 ^ 54 + 3602879701896397 / 2 ^ 55)
      = 2 powi (max (- 2) (- 1022) - 52)"
    by (rule ulp_at) (simp_all add: power_int_minus_divide)
  then have u: "ulp (3602879701896397 / 2 ^ 54 + 3602879701896397 / 2 ^ 55) = 1 / 2 ^ 54"
    by (simp add: power_int_minus_divide)
  have t3: "round_double (3602879701896397 / 2 ^ 54 + 3602879701896397 / 2 ^ 55)
      = Num (5404319552844596 / 2 ^ 54)"
    unfolding round_double_def u by (simp add: round_half_even_def)
  have t1': "round_double (3602879701896397 / 36028797018963968)
      = Num (3602879701896397 / 36028797018963968)"
    using round_double_dyadic [of 3602879701896397 55] by simp
  have t2': "round_double (3602879701896397 / 18014398509481984)
      = Num (3602879701896397 / 18014398509481984)"
    using t2 by simp
  have t3': "round_double (10808639105689191 / 36028797018963968)
      = Num (5404319552844596 / 18014398509481984)"
    using t3 by simp
  show ?thesis
    by (simp add: Engine_onPointerDown_def Engine_onPointerMove_def Engine_new_def
        setPointerCapture_def window0_def canvas640_def pointer_at_def clamp2_Num js_sub_def
        round_double_tenth t1' t2' t3')
qed

text \<open>
  C1. The translation stays within \<open>[-2, 2]\<close> after every pointer-move update, in
  all three backends. The handlers miss one case: on a surface whose CSS width is 0 a
  move that keeps \<open>clientX\<close> divides 0 by 0, and \<open>Math.min\<close> and \<open>Math.max\<close>
  hand the \<open>NaN\<close> through, so that the first component is not within \<open>[-2, 2]\<close>.
  The theorem evaluates the three handlers there.
\<close>

theorem zero_size_drag_is_NaN:
  "tx (translation (Engine_onPointerMove
      (state_of (Engine_onPointerDown (Engine_new (canvas640\<lparr>clientWidth := 0\<rparr>) window0 1)
         (pointer_at 320 200)))
      (pointer_at 320 250))) = NaN
 \<and> tx (translation (EngineGL_onPointerMove
      (state_of (EngineGL_onPointerDown (EngineGL_new (canvas640\<lparr>clientWidth := 0\<rparr>) window0 2)
         (pointer_at 320 200)))
      (pointer_at 320 250))) = NaN
 \<and> tx (translation (EngineCanvas_onPointerMove
      (state_of (EngineCanvas_onPointerDown (EngineCanvas_new (canvas640\<lparr>clientWidth := 0\<rparr>) window0 3)
         (pointer_at 320 200)))
      (pointer_at 320 250))) = NaN
 \<and> \<not> in_range (- 2) 2 NaN"
  by (simp add: Engine_onPointerDown_def EngineGL_onPointerDown_def EngineCanvas_onPointerDown_def
      Engine_onPointerMove_def EngineGL_onPointerMove_def EngineCanvas_onPointerMove_def
      Engine_new_def EngineGL_new_def EngineCanvas_new_def setPointerCapture_def
      window0_def canvas640_def pointer_at_def clamp2_special js_sub_def)


subsection \<open>Failures of pointer capture\<close>

text \<open>
  C9. A failure of a capture or release call made by a pointer handler never leaves the
  handler. The release in \<open>endDrag\<close> is guarded by \<open>try\<close> and \<open>catch\<close>; the
  \<open>setPointerCapture\<close> of \<open>onPointerDown\<close> is not: for a pointer id that is not
  active, the three pointer-down handlers throw \<open>NotFoundError\<close> and leave the
  pointer state idle. The theorem evaluates them there.
\<close>

theorem pointer_down_capture_failure_propagates:
  "Engine_onPointerDown (Engine_new canvas640 window0 1)
      \<lparr>clientX = 320, clientY = 200, pointerId = 7\<rparr>
    = Threw NotFoundError (Engine_new canvas640 window0 1)
 \<and> EngineGL_onPointerDown (EngineGL_new canvas640 window0 2)
      \<lparr>clientX = 320, clientY = 200, pointerId = 7\<rparr>
    = Threw NotFoundError (EngineGL_new canvas640 window0 2)
 \<and> EngineCanvas_onPointerDown (EngineCanvas_new canvas640 window0 3)
      \<lparr>clientX = 320, clientY = 200, pointerId = 7\<rparr>
    = Threw NotFoundError (EngineCanvas_new canvas640 window0 3)"
  by (simp add: Engine_onPointerDown_def EngineGL_onPointerDown_def EngineCanvas_onPointerDown_def
      Engine_new_def EngineGL_new_def EngineCanvas_new_def setPointerCapture_def
      window0_def canvas640_def)

text \<open>The guarded release: \<open>endDrag\<close> ends the drag whether the call fails or not.\<close>

lemma endDrag_swallows:
  "pointerId e \<notin> activePointers (window s) \<Longrightarrow>
     Engine_endDrag s e = s\<lparr>pointer := (pointer s)\<lparr>dragging := False\<rparr>\<rparr>"
  "pointerId e \<notin> activePointers (window g) \<Longrightarrow>
     EngineGL_endDrag g e = g\<lparr>pointer := (pointer g)\<lparr>dragging := False\<rparr>\<rparr>"
  "pointerId e \<notin> activePointers (window c) \<Longrightarrow>
     EngineCanvas_endDrag c e = c\<lparr>pointer := (pointer c)\<lparr>dragging := False\<rparr>\<rparr>"
  by (simp_all add: Engine_endDrag_def EngineGL_endDrag_def EngineCanvas_endDrag_def
      releasePointerCapture_def)


subsection \<open>The started engines\<close>

lemma draws_append: "draws (xs @ ys) = draws xs + draws ys"
  by (induction xs) (simp_all add: draws_def)

lemma draws_simps: "draws [] = 0" "draws [Configure] = 0" "draws [DrawCall] = 1"
  by (simp_all add: draws_def)

lemma Engine_started_eq:
  "Engine_started =
     \<lparr>ident = 1,
      canvas = canvas640\<lparr>listeners := {1}, engineCleanup := Some 1\<rparr>,
      window = window0\<lparr>rafQueue := [1], rafCounter := 1\<rparr>,
      running = True, animationFrame = Some 1,
      translation = \<lparr>tx = Num 0, ty = Num 0\<rparr>,
      pointer = \<lparr>dragging = False, lastX = 0, lastY = 0\<rparr>,
      effects = [Configure, WriteUniforms, CreateVertexBuffer, DrawCall],
      device = True, gpuContext = True, pipeline = True,
      needsUpload = False, vertexBuffer = True\<rparr>"
  by (simp add: Engine_started_def Engine_start_def Engine_frame_def Engine_drawFrame_def
      Engine_createVertexBuffer_def Engine_create_def Engine_init_def Engine_new_def
      Engine_configureContext_def Engine_uploadUniforms_def fit_buffer_def buffer_width_def
      buffer_height_def dpr_or_1_def strict_ne_def Engine_setupEvents_def
      requestAnimationFrame_def canvas640_def window0_def)

lemma EngineGL_started_eq:
  "EngineGL_started =
     \<lparr>ident = 2,
      canvas = canvas640\<lparr>listeners := {2}, engineCleanupGL := Some 2\<rparr>,
      window = window0\<lparr>rafQueue := [1], rafCounter := 1\<rparr>,
      running = True, animationFrame = Some 1,
      translation = \<lparr>tx = Num 0, ty = Num 0\<rparr>,
      pointer = \<lparr>dragging = False, lastX = 0, lastY = 0\<rparr>,
      effects = [DrawCall],
      gl = True, program = True\<rparr>"
  by (simp add: EngineGL_started_def EngineGL_start_def EngineGL_frame_def EngineGL_draw_def
      EngineGL_create_def EngineGL_init_def EngineGL_new_def EngineGL_setupEvents_def
      requestAnimationFrame_def canvas640_def window0_def)

lemma EngineCanvas_started_eq:
  "EngineCanvas_started =
     \<lparr>ident = 3,
      canvas = canvas640\<lparr>listeners := {3}, engineCleanupCanvas := Some 3\<rparr>,
      window = window0\<lparr>rafQueue := [1], rafCounter := 1\<rparr>,
      running = True, animationFrame = Some 1,
      translation = \<lparr>tx = Num 0, ty = Num 0\<rparr>,
      pointer = \<lparr>dragging = False, lastX = 0, lastY = 0\<rparr>,
      effects = [DrawCall],
      ctx = True\<rparr>"
  by (simp add: EngineCanvas_started_def EngineCanvas_start_def EngineCanvas_frame_def
      EngineCanvas_draw_def EngineCanvas_create_def EngineCanvas_init_def EngineCanvas_new_def
      fit_buffer_def buffer_width_def buffer_height_def dpr_or_1_def strict_ne_def
      EngineCanvas_setupEvents_def requestAnimationFrame_def canvas640_def window0_def)


subsection \<open>The cleanup closures\<close>

text \<open>
  \<open>dispose\<close> removes the listeners of the engine whose closure is stored under the
  property of its class, and no others; without a stored closure it removes none.
\<close>

lemma dispose_listeners:
  "listeners (canvas (Engine_dispose s)) =
     (case engineCleanup (canvas s) of
        None \<Rightarrow> listeners (canvas s) | Some i \<Rightarrow> listeners (canvas s) - {i})"
  "listeners (canvas (EngineGL_dispose g)) =
     (case engineCleanupGL (canvas g) of
        None \<Rightarrow> listeners (canvas g) | Some i \<Rightarrow> listeners (canvas g) - {i})"
  "listeners (canvas (EngineCanvas_dispose c)) =
     (case engineCleanupCanvas (canvas c) of
        None \<Rightarrow> listeners (canvas c) | Some i \<Rightarrow> listeners (canvas c) - {i})"
  by (simp_all add: Engine_dispose_def EngineGL_dispose_def EngineCanvas_dispose_def
      Engine_stop_def EngineGL_stop_def EngineCanvas_stop_def run_cleanup_def
      split: option.splits)

text \<open>
  A canvas shared by engines of two classes: an \<open>EngineCanvas\<close> created on the canvas
  of the started WebGL engine, where no 2D context is to be had, registers nothing, and
  its \<open>dispose\<close> leaves the listeners of the WebGL engine registered.
\<close>

lemma dispose_on_shared_canvas:
  "listeners (canvas (EngineCanvas_dispose (state_of
      (EngineCanvas_create ((canvas EngineGL_started)\<lparr>context2d := False\<rparr>) window0 3)))) = {2}"
  by (simp add: EngineCanvas_dispose_def EngineCanvas_stop_def run_cleanup_def
      EngineCanvas_create_def EngineCanvas_init_def EngineCanvas_new_def EngineGL_started_eq
      canvas640_def)


subsection \<open>Idempotence of start and stop\<close>

text \<open>
  C7. For each backend, \<open>start\<close> called while the loop is running returns at once and
  leaves the whole state, the queue of scheduled frames included, as it is, so that no
  second loop begins; \<open>stop\<close> halts the loop, two consecutive calls leave the state
  that one call leaves, and the canvas, the effects and the resources of the backend
  are not touched by it.
\<close>

theorem start_stop_idempotent:
  "(running s \<longrightarrow> Engine_start s = Returned s)
   \<and> Engine_stop (Engine_stop s) = Engine_stop s
   \<and> \<not> running (Engine_stop s)
   \<and> canvas (Engine_stop s) = canvas s \<and> effects (Engine_stop s) = effects s
   \<and> device (Engine_stop s) = device s \<and> gpuContext (Engine_stop s) = gpuContext s
   \<and> pipeline (Engine_stop s) = pipeline s \<and> vertexBuffer (Engine_stop s) = vertexBuffer s
   \<and> (running g \<longrightarrow> EngineGL_start g = Returned g)
   \<and> EngineGL_stop (EngineGL_stop g) = EngineGL_stop g
   \<and> \<not> running (EngineGL_stop g)
   \<and> canvas (EngineGL_stop g) = canvas g \<and> effects (EngineGL_stop g) = effects g
   \<and> gl (EngineGL_stop g) = gl g \<and> program (EngineGL_stop g) = program g
   \<and> (running c \<longrightarrow> EngineCanvas_start c = Returned c)
   \<and> EngineCanvas_stop (EngineCanvas_stop c) = EngineCanvas_stop c
   \<and> \<not> running (EngineCanvas_stop c)
   \<and> canvas (EngineCanvas_stop c) = canvas c \<and> effects (EngineCanvas_stop c) = effects c
   \<and> ctx (EngineCanvas_stop c) = ctx c"
  by (simp add: Engine_start_def Engine_stop_def EngineGL_start_def EngineGL_stop_def
      EngineCanvas_start_def EngineCanvas_stop_def)

text \<open>The started engines are running, and a further \<open>start\<close> changes nothing.\<close>

theorem start_stop_idempotent_witness:
  "running Engine_started \<and> Engine_start Engine_started = Returned Engine_started
   \<and> running EngineGL_started \<and> EngineGL_start EngineGL_started = Returned EngineGL_started
   \<and> running EngineCanvas_started
   \<and> EngineCanvas_start EngineCanvas_started = Returned EngineCanvas_started"
  using start_stop_idempotent [of Engine_started EngineGL_started EngineCanvas_started]
  by (simp add: Engine_started_eq EngineGL_started_eq EngineCanvas_started_eq)


subsection \<open>No draw call after stop or dispose\<close>

text \<open>
  An engine that is not running draws nothing at a frame tick, and no call or event
  other than \<open>start\<close> makes it run.
\<close>

lemma Engine_frames_idle:
  "\<not> running a \<Longrightarrow> foldl (\<lambda>a h. state_of (Engine_frame a)) a q = a"
  by (induction q) (simp_all add: Engine_frame_def)

lemma Engine_tick_idle:
  "\<not> running s \<Longrightarrow> Engine_tick s = s\<lparr>window := (window s)\<lparr>rafQueue := []\<rparr>\<rparr>"
  by (simp add: Engine_tick_def Engine_frames_idle)

lemma Engine_deliver_idle:
  assumes "\<not> running s" and "ev \<noteq> Start"
  shows "\<not> running (Engine_deliver s ev)
       \<and> draws (effects (Engine_deliver s ev)) = draws (effects s)"
proof (cases ev)
  case Start
  with assms show ?thesis by simp
next
  case Stop
  with assms show ?thesis by (simp add: Engine_stop_def)
next
  case Dispose
  with assms show ?thesis by (simp add: Engine_dispose_def Engine_stop_def)
next
  case Tick
  with assms show ?thesis by (simp add: Engine_tick_idle)
next
  case (PointerDown e)
  with assms show ?thesis
    by (simp add: Engine_onPointerDown_def split: outcome.splits)
next
  case (PointerMove e)
  with assms show ?thesis by (simp add: Engine_onPointerMove_def Let_def)
next
  case (PointerUp e)
  with assms show ?thesis by (simp add: Engine_endDrag_def Let_def)
next
  case (PointerLeave e)
  with assms show ?thesis by (simp add: Engine_endDrag_def Let_def)
next
  case Resize
  with assms show ?thesis
    by (simp add: Engine_onResize_def Engine_configureContext_def Let_def draws_append draws_simps)
qed

lemma Engine_run_idle:
  assumes "\<not> running s" and "Start \<notin> set evs"
  shows "\<not> running (Engine_run s evs)
       \<and> draws (effects (Engine_run s evs)) = draws (effects s)"
  using assms unfolding Engine_run_def
proof (induction evs arbitrary: s)
  case Nil
  then show ?case by simp
next
  case (Cons ev evs)
  from Cons.prems have "ev \<noteq> Start" by auto
  with Cons.prems(1) have step: "\<not> running (Engine_deliver s ev)"
      "draws (effects (Engine_deliver s ev)) = draws (effects s)"
    using Engine_deliver_idle by blast+
  from Cons.prems have "Start \<notin> set evs" by simp
  with Cons.IH [OF step(1)] step(2) show ?case by simp
qed

lemma EngineGL_frames_idle:
  "\<not> running a \<Longrightarrow> foldl (\<lambda>a h. state_of (EngineGL_frame a)) a q = a"
  by (induction q) (simp_all add: EngineGL_frame_def)

lemma EngineGL_tick_idle:
  "\<not> running s \<Longrightarrow> EngineGL_tick s = s\<lparr>window := (window s)\<lparr>rafQueue := []\<rparr>\<rparr>"
  by (simp add: EngineGL_tick_def EngineGL_frames_idle)

lemma EngineGL_deliver_idle:
  assumes "\<not> running s" and "ev \<noteq> Start"
  shows "\<not> running (EngineGL_deliver s ev)
       \<and> draws (effects (EngineGL_deliver s ev)) = draws (effects s)"
proof (cases ev)
  case Start
  with assms show ?thesis by simp
next
  case Stop
  with assms show ?thesis by (simp add: EngineGL_stop_def)
next
  case Dispose
  with assms show ?thesis by (simp add: EngineGL_dispose_def EngineGL_stop_def)
next
  case Tick
  with assms show ?thesis by (simp add: EngineGL_tick_idle)
next
  case (PointerDown e)
  with assms show ?thesis
    by (simp add: EngineGL_onPointerDown_def split: outcome.splits)
next
  case (PointerMove e)
  with assms show ?thesis by (simp add: EngineGL_onPointerMove_def Let_def)
next
  case (PointerUp e)
  with assms show ?thesis by (simp add: EngineGL_endDrag_def Let_def)
next
  case (PointerLeave e)
  with assms show ?thesis by (simp add: EngineGL_endDrag_def Let_def)
next
  case Resize
  with assms show ?thesis
    by (simp add: EngineGL_onResize_def)
qed

lemma EngineGL_run_idle:
  assumes "\<not> running s" and "Start \<notin> set evs"
  shows "\<not> running (EngineGL_run s evs)
       \<and> draws (effects (EngineGL_run s evs)) = draws (effects s)"
  using assms unfolding EngineGL_run_def
proof (induction evs arbitrary: s)
  case Nil
  then show ?case by simp
next
  case (Cons ev evs)
  from Cons.prems have "ev \<noteq> Start" by auto
  with Cons.prems(1) have step: "\<not> running (EngineGL_deliver s ev)"
      "draws (effects (EngineGL_deliver s ev)) = draws (effects s)"
    using EngineGL_deliver_idle by blast+
  from Cons.prems have "Start \<notin> set evs" by simp
  with Cons.IH [OF step(1)] step(2) show ?case by simp
qed

lemma EngineCanvas_frames_idle:
  "\<not> running a \<Longrightarrow> foldl (\<lambda>a h. state_of (EngineCanvas_frame a)) a q = a"
  by (induction q) (simp_all add: EngineCanvas_frame_def)

lemma EngineCanvas_tick_idle:
  "\<not> running s \<Longrightarrow> EngineCanvas_tick s = s\<lparr>window := (window s)\<lparr>rafQueue := []\<rparr>\<rparr>"
  by (simp add: EngineCanvas_tick_def EngineCanvas_frames_idle)

lemma EngineCanvas_deliver_idle:
  assumes "\<not> running s" and "ev \<noteq> Start"
  shows "\<not> running (EngineCanvas_deliver s ev)
       \<and> draws (effects (EngineCanvas_deliver s ev)) = draws (effects s)"
proof (cases ev)
  case Start
  with assms show ?thesis by simp
next
  case Stop
  with assms show ?thesis by (simp add: EngineCanvas_stop_def)
next
  case Dispose
  with assms show ?thesis by (simp add: EngineCanvas_dispose_def EngineCanvas_stop_def)
next
  case Tick
  with assms show ?thesis by (simp add: EngineCanvas_tick_idle)
next
  case (PointerDown e)
  with assms show ?thesis
    by (simp add: EngineCanvas_onPointerDown_def split: outcome.splits)
next
  case (PointerMove e)
  with assms show ?thesis by (simp add: EngineCanvas_onPointerMove_def Let_def)
next
  case (PointerUp e)
  with assms show ?thesis by (simp add: EngineCanvas_endDrag_def Let_def)
next
  case (PointerLeave e)
  with assms show ?thesis by (simp add: EngineCanvas_endDrag_def Let_def)
next
  case Resize
  with assms show ?thesis
    by (simp add: EngineCanvas_onResize_def)
qed

lemma EngineCanvas_run_idle:
  assumes "\<not> running s" and "Start \<notin> set evs"
  shows "\<not> running (EngineCanvas_run s evs)
       \<and> draws (effects (EngineCanvas_run s evs)) = draws (effects s)"
  using assms unfolding EngineCanvas_run_def
proof (induction evs arbitrary: s)
  case Nil
  then show ?case by simp
next
  case (Cons ev evs)
  from Cons.prems have "ev \<noteq> Start" by auto
  with Cons.prems(1) have step: "\<not> running (EngineCanvas_deliver s ev)"
      "draws (effects (EngineCanvas_deliver s ev)) = draws (effects s)"
    using EngineCanvas_deliver_idle by blast+
  from Cons.prems have "Start \<notin> set evs" by simp
  with Cons.IH [OF step(1)] step(2) show ?case by simp
qed

text \<open>
  C3. For each backend and each state, after \<open>stop\<close> or \<open>dispose\<close> no sequence of
  frame ticks, DOM events and further \<open>stop\<close> and \<open>dispose\<close> calls without a
  \<open>start\<close> among them adds a draw call, the frames that were scheduled included; and
  a frame tick after \<open>dispose\<close> has no effect on the graphics context or the canvas.
\<close>

theorem no_draw_after_stop:
  assumes "Start \<notin> set evs"
  shows "draws (effects (Engine_run (Engine_stop s) evs)) = draws (effects s)
       \<and> draws (effects (Engine_run (Engine_dispose s) evs)) = draws (effects s)
       \<and> effects (Engine_tick (Engine_dispose s)) = effects s
       \<and> canvas (Engine_tick (Engine_dispose s)) = canvas (Engine_dispose s)
       \<and> draws (effects (EngineGL_run (EngineGL_stop g) evs)) = draws (effects g)
       \<and> draws (effects (EngineGL_run (EngineGL_dispose g) evs)) = draws (effects g)
       \<and> effects (EngineGL_tick (EngineGL_dispose g)) = effects g
       \<and> canvas (EngineGL_tick (EngineGL_dispose g)) = canvas (EngineGL_dispose g)
       \<and> draws (effects (EngineCanvas_run (EngineCanvas_stop c) evs)) = draws (effects c)
       \<and> draws (effects (EngineCanvas_run (EngineCanvas_dispose c) evs)) = draws (effects c)
       \<and> effects (EngineCanvas_tick (EngineCanvas_dispose c)) = effects c
       \<and> canvas (EngineCanvas_tick (EngineCanvas_dispose c)) = canvas (EngineCanvas_dispose c)"
proof -
  have e: "\<not> running (Engine_stop s)" "\<not> running (Engine_dispose s)"
      "effects (Engine_stop s) = effects s" "effects (Engine_dispose s) = effects s"
    by (simp_all add: Engine_stop_def Engine_dispose_def)
  have g: "\<not> running (EngineGL_stop g)" "\<not> running (EngineGL_dispose g)"
      "effects (EngineGL_stop g) = effects g" "effects (EngineGL_dispose g) = effects g"
    by (simp_all add: EngineGL_stop_def EngineGL_dispose_def)
  have c: "\<not> running (EngineCanvas_stop c)" "\<not> running (EngineCanvas_dispose c)"
      "effects (EngineCanvas_stop c) = effects c" "effects (EngineCanvas_dispose c) = effects c"
    by (simp_all add: EngineCanvas_stop_def EngineCanvas_dispose_def)
  show ?thesis
    using assms e g c
      Engine_run_idle [of "Engine_stop s" evs] Engine_run_idle [of "Engine_dispose s" evs]
      EngineGL_run_idle [of "EngineGL_stop g" evs] EngineGL_run_idle [of "EngineGL_dispose g" evs]
      EngineCanvas_run_idle [of "EngineCanvas_stop c" evs]
      EngineCanvas_run_idle [of "EngineCanvas_dispose c" evs]
    by (simp add: Engine_tick_idle EngineGL_tick_idle EngineCanvas_tick_idle)
qed

text \<open>
  The started engines have drawn once and have one frame scheduled; stopped or
  disposed, they still have drawn once after two further frame ticks.
\<close>

theorem no_draw_after_stop_witness:
  "Start \<notin> set [Tick, Resize, PointerMove (pointer_at 400 250), Tick]
   \<and> rafQueue (window Engine_started) = [1] \<and> draws (effects Engine_started) = 1
   \<and> draws (effects (Engine_run (Engine_stop Engine_started)
        [Tick, Resize, PointerMove (pointer_at 400 250), Tick])) = 1
   \<and> draws (effects (Engine_run (Engine_dispose Engine_started)
        [Tick, Resize, PointerMove (pointer_at 400 250), Tick])) = 1
   \<and> draws (effects (EngineGL_run (EngineGL_stop EngineGL_started)
        [Tick, Resize, PointerMove (pointer_at 400 250), Tick])) = 1
   \<and> draws (effects (EngineCanvas_run (EngineCanvas_dispose EngineCanvas_started)
        [Tick, Resize, PointerMove (pointer_at 400 250), Tick])) = 1"
  using no_draw_after_stop [of "[Tick, Resize, PointerMove (pointer_at 400 250), Tick]"
      Engine_started EngineGL_started EngineCanvas_started]
  by (simp add: Engine_started_eq EngineGL_started_eq EngineCanvas_started_eq draws_def)


subsection \<open>What create resolves with\<close>

text \<open>
  C4 as stated: \<open>create\<close> never resolves with an instance whose context or device
  was not obtained. It does, in each backend: without \<open>navigator.gpu\<close> the WebGPU
  \<open>create\<close> resolves with an engine that has neither device nor context, and when
  \<open>getContext\<close> yields \<open>null\<close> the other two resolve with an engine without context.
\<close>

theorem create_unready_counterexample:
  "returned (Engine_create canvas640 (window0\<lparr>gpu := False\<rparr>) 1)
   \<and> \<not> device (state_of (Engine_create canvas640 (window0\<lparr>gpu := False\<rparr>) 1))
   \<and> \<not> gpuContext (state_of (Engine_create canvas640 (window0\<lparr>gpu := False\<rparr>) 1))
   \<and> returned (EngineGL_create (canvas640\<lparr>webglContext := False\<rparr>) window0 2)
   \<and> \<not> gl (state_of (EngineGL_create (canvas640\<lparr>webglContext := False\<rparr>) window0 2))
   \<and> returned (EngineCanvas_create (canvas640\<lparr>context2d := False\<rparr>) window0 3)
   \<and> \<not> ctx (state_of (EngineCanvas_create (canvas640\<lparr>context2d := False\<rparr>) window0 3))"
  by (simp add: Engine_create_def Engine_init_def Engine_new_def EngineGL_create_def
      EngineGL_init_def EngineGL_new_def EngineCanvas_create_def EngineCanvas_init_def
      EngineCanvas_new_def canvas640_def window0_def)

text \<open>The five ways through \<open>Engine.create\<close>.\<close>

lemma Engine_create_cases:
  "Engine_create c w i =
     (if \<not> gpu w \<or> \<not> adapter w then Returned ((Engine_new c w i)\<lparr>effects := [ConsoleError]\<rparr>)
      else if \<not> deviceGranted w then Threw OperationError (Engine_new c w i)
      else if \<not> webgpuContext c
        then Returned ((Engine_new c w i)\<lparr>effects := [ConsoleError], device := True\<rparr>)
      else Returned ((Engine_new c w i)
             \<lparr>canvas := (fit_buffer w c)\<lparr>listeners := insert i (listeners (fit_buffer w c)),
                                         engineCleanup := Some i\<rparr>,
              effects := [Configure, WriteUniforms],
              device := True, gpuContext := True, pipeline := True, needsUpload := False\<rparr>))"
  by (simp add: Engine_create_def Engine_init_def Engine_new_def Engine_configureContext_def
      Engine_uploadUniforms_def Engine_setupEvents_def)

text \<open>
  C4, amended. \<open>create\<close> of each backend resolves with an instance whenever no host
  promise rejects (\<open>Engine.create\<close> rejects only when \<open>requestDevice\<close> does;
  the other two always resolve). The instance is ready (device and context obtained,
  resources built, handlers registered) exactly when the required API is present and
  the context is acquired. Otherwise \<open>create\<close> logs one console error and still
  resolves, with an instance that has no context and no resources and with no handler
  registered on the canvas; no failure is raised for a missing API or context.
\<close>

theorem create_outcome:
  "(returned (Engine_create c w i) \<longleftrightarrow> (gpu w \<and> adapter w \<longrightarrow> deviceGranted w))
   \<and> (Engine_ready (state_of (Engine_create c w i))
        \<longleftrightarrow> gpu w \<and> adapter w \<and> deviceGranted w \<and> webgpuContext c)
   \<and> (returned (Engine_create c w i) \<and> \<not> Engine_ready (state_of (Engine_create c w i))
        \<longrightarrow> effects (state_of (Engine_create c w i)) = [ConsoleError]
          \<and> canvas (state_of (Engine_create c w i)) = c
          \<and> \<not> gpuContext (state_of (Engine_create c w i))
          \<and> \<not> pipeline (state_of (Engine_create c w i)))
   \<and> (\<forall>x s. Engine_create c w i = Threw x s \<longrightarrow> x = OperationError \<and> \<not> deviceGranted w)
   \<and> returned (EngineGL_create c w i)
   \<and> (EngineGL_ready (state_of (EngineGL_create c w i)) \<longleftrightarrow> webglContext c)
   \<and> (\<not> webglContext c \<longrightarrow>
         state_of (EngineGL_create c w i) = (EngineGL_new c w i)\<lparr>effects := [ConsoleError]\<rparr>)
   \<and> returned (EngineCanvas_create c w i)
   \<and> (EngineCanvas_ready (state_of (EngineCanvas_create c w i)) \<longleftrightarrow> context2d c)
   \<and> (\<not> context2d c \<longrightarrow>
         state_of (EngineCanvas_create c w i) = (EngineCanvas_new c w i)\<lparr>effects := [ConsoleError]\<rparr>)"
proof -
  have e1: "returned (Engine_create c w i) \<longleftrightarrow> (gpu w \<and> adapter w \<longrightarrow> deviceGranted w)"
    by (simp add: Engine_create_cases)
  have e2: "Engine_ready (state_of (Engine_create c w i))
        \<longleftrightarrow> gpu w \<and> adapter w \<and> deviceGranted w \<and> webgpuContext c"
    by (auto simp add: Engine_create_cases Engine_ready_def Engine_new_def)
  have e3: "returned (Engine_create c w i) \<and> \<not> Engine_ready (state_of (Engine_create c w i))
        \<longrightarrow> effects (state_of (Engine_create c w i)) = [ConsoleError]
          \<and> canvas (state_of (Engine_create c w i)) = c
          \<and> \<not> gpuContext (state_of (Engine_create c w i))
          \<and> \<not> pipeline (state_of (Engine_create c w i))"
    by (auto simp add: Engine_create_cases Engine_ready_def Engine_new_def)
  have e4: "\<forall>x s. Engine_create c w i = Threw x s \<longrightarrow> x = OperationError \<and> \<not> deviceGranted w"
    by (simp add: Engine_create_cases)
  have g: "returned (EngineGL_create c w i)"
      "EngineGL_ready (state_of (EngineGL_create c w i)) \<longleftrightarrow> webglContext c"
      "\<not> webglContext c \<longrightarrow>
         state_of (EngineGL_create c w i) = (EngineGL_new c w i)\<lparr>effects := [ConsoleError]\<rparr>"
    by (simp_all add: EngineGL_create_def EngineGL_init_def EngineGL_new_def EngineGL_ready_def
        EngineGL_setupEvents_def)
  have k: "returned (EngineCanvas_create c w i)"
      "EngineCanvas_ready (state_of (EngineCanvas_create c w i)) \<longleftrightarrow> context2d c"
      "\<not> context2d c \<longrightarrow>
         state_of (EngineCanvas_create c w i) = (EngineCanvas_new c w i)\<lparr>effects := [ConsoleError]\<rparr>"
    by (simp_all add: EngineCanvas_create_def EngineCanvas_init_def EngineCanvas_new_def
        EngineCanvas_ready_def EngineCanvas_setupEvents_def)
  from e1 e2 e3 e4 g k show ?thesis by blast
qed

text \<open>
  With every capability the engine is ready; without an adapter, a WebGL context or a
  2D context \<open>create\<close> resolves with an engine that is not; a rejected
  \<open>requestDevice\<close> rejects \<open>create\<close>.
\<close>

theorem create_outcome_witness:
  "returned (Engine_create canvas640 window0 1)
   \<and> Engine_ready (state_of (Engine_create canvas640 window0 1))
   \<and> returned (Engine_create canvas640 (window0\<lparr>adapter := False\<rparr>) 1)
   \<and> \<not> Engine_ready (state_of (Engine_create canvas640 (window0\<lparr>adapter := False\<rparr>) 1))
   \<and> effects (state_of (Engine_create canvas640 (window0\<lparr>adapter := False\<rparr>) 1)) = [ConsoleError]
   \<and> Engine_create canvas640 (window0\<lparr>deviceGranted := False\<rparr>) 1
       = Threw OperationError (Engine_new canvas640 (window0\<lparr>deviceGranted := False\<rparr>) 1)
   \<and> \<not> webglContext (canvas640\<lparr>webglContext := False\<rparr>)
   \<and> \<not> EngineGL_ready (state_of (EngineGL_create (canvas640\<lparr>webglContext := False\<rparr>) window0 2))
   \<and> \<not> context2d (canvas640\<lparr>context2d := False\<rparr>)
   \<and> \<not> EngineCanvas_ready (state_of (EngineCanvas_create (canvas640\<lparr>context2d := False\<rparr>) window0 3))"
  using create_outcome [of canvas640 window0 1]
    create_outcome [of canvas640 "window0\<lparr>adapter := False\<rparr>" 1]
    create_outcome [of canvas640 "window0\<lparr>deviceGranted := False\<rparr>" 1]
    create_outcome [of "canvas640\<lparr>webglContext := False\<rparr>" window0 2]
    create_outcome [of "canvas640\<lparr>context2d := False\<rparr>" window0 3]
  by (simp add: Engine_create_cases canvas640_def window0_def EngineGL_ready_def
      EngineCanvas_ready_def EngineGL_new_def EngineCanvas_new_def)


subsection \<open>Resize checks\<close>

text \<open>
  C8 as stated: on every resize check each backend recomputes the buffer size and
  reconfigures the surface or context only when the size differs. The started WebGPU
  engine, whose buffer already has the computed size, still calls
  \<open>context.configure\<close> at a resize event; and the WebGL engine recomputes nothing:
  at a pixel ratio of 2 the computed width is 1280, and the buffer is 640 wide after
  the resize event and after a draw.
\<close>

theorem resize_counterexample:
  "width (canvas Engine_started) = 640
   \<and> buffer_width (window Engine_started) (canvas Engine_started) = Num 640
   \<and> height (canvas Engine_started) = 400
   \<and> buffer_height (window Engine_started) (canvas Engine_started) = Num 400
   \<and> effects (state_of (Engine_onResize Engine_started)) = effects Engine_started @ [Configure]
   \<and> buffer_width (window0\<lparr>devicePixelRatio := 2\<rparr>) canvas640 = Num 1280
   \<and> width (canvas (EngineGL_onResize (EngineGL_started\<lparr>window := window0\<lparr>devicePixelRatio := 2\<rparr>\<rparr>))) = 640
   \<and> width (canvas (state_of (EngineGL_draw
        (EngineGL_started\<lparr>window := window0\<lparr>devicePixelRatio := 2\<rparr>\<rparr>)))) = 640"
  by (simp add: Engine_started_eq EngineGL_started_eq Engine_onResize_def
      Engine_configureContext_def EngineGL_onResize_def EngineGL_draw_def fit_buffer_def
      buffer_width_def buffer_height_def dpr_or_1_def strict_ne_def canvas640_def window0_def)

text \<open>The computed size is never \<open>NaN\<close>, so that \<open>!==\<close> is plain inequality on it.\<close>

lemma Math_floor_not_NaN: "v \<noteq> NaN \<Longrightarrow> Math_floor v \<noteq> NaN"
  by (cases v) simp_all

lemma buffer_size_not_NaN: "buffer_width w k \<noteq> NaN" "buffer_height w k \<noteq> NaN"
  by (simp_all add: buffer_width_def buffer_height_def Math_floor_not_NaN)

lemma strict_ne_buffer:
  "strict_ne (Num a) (buffer_width w k) \<longleftrightarrow> Num a \<noteq> buffer_width w k"
  "strict_ne (Num a) (buffer_height w k) \<longleftrightarrow> Num a \<noteq> buffer_height w k"
  by (simp_all add: strict_ne_def buffer_size_not_NaN)

text \<open>The guarded assignment of the buffer size.\<close>

lemma reflect_unsigned_id:
  "0 \<le> v \<Longrightarrow> v \<le> 2147483647 \<Longrightarrow> reflect_unsigned d (Num (of_int v)) = v"
  by (simp add: reflect_unsigned_def)

lemma fit_buffer_same:
  "Num (of_int (width k)) = buffer_width w k \<Longrightarrow> Num (of_int (height k)) = buffer_height w k
     \<Longrightarrow> fit_buffer w k = k"
  using buffer_size_not_NaN [of w k] by (auto simp add: fit_buffer_def strict_ne_def)

lemma fit_buffer_differs:
  assumes "Num (of_int (width k)) \<noteq> buffer_width w k \<or> Num (of_int (height k)) \<noteq> buffer_height w k"
  shows "sizeWrites (fit_buffer w k) = sizeWrites k + 2"
    and "width (fit_buffer w k) = reflect_unsigned 300 (buffer_width w k)"
    and "height (fit_buffer w k) = reflect_unsigned 150 (buffer_height w k)"
  using assms by (auto simp add: fit_buffer_def strict_ne_buffer set_width_def set_height_def)

lemma fit_buffer_fits:
  assumes "buffer_width w k = Num (of_int bw)" "0 \<le> bw" "bw \<le> 2147483647"
    and "buffer_height w k = Num (of_int bh)" "0 \<le> bh" "bh \<le> 2147483647"
  shows "width (fit_buffer w k) = bw \<and> height (fit_buffer w k) = bh"
proof (cases "Num (of_int (width k)) \<noteq> buffer_width w k \<or> Num (of_int (height k)) \<noteq> buffer_height w k")
  case True
  then show ?thesis
    using assms by (simp add: fit_buffer_differs reflect_unsigned_id)
next
  case False
  then have "fit_buffer w k = k" by (simp add: fit_buffer_same)
  moreover from False assms(1,4) have "width k = bw" "height k = bh" by simp_all
  ultimately show ?thesis by simp
qed

text \<open>
  The product is rounded before the floor is taken: at the double nearest to \<open>1.2\<close>
  the exact products \<open>640 * 1.2\<close> and \<open>400 * 1.2\<close> lie just below 768 and 480 and
  round to them, so that the buffer is 768 by 480.
\<close>

lemma buffer_at_ratio_1_2:
  "buffer_width window_1_2 canvas640 = Num 768"
  "buffer_height window_1_2 canvas640 = Num 480"
  "\<lfloor>640 * double_1_2\<rfloor> = 767" "\<lfloor>400 * double_1_2\<rfloor> = 479"
  "width (fit_buffer window_1_2 canvas640) = 768"
  "height (fit_buffer window_1_2 canvas640) = 480"
proof -
  have "ulp (640 * double_1_2) = 2 powi (max 9 (- 1022) - 52)"
    by (rule ulp_at) (simp_all add: double_1_2_def)
  then have u: "ulp (640 * double_1_2) = 1 / 2 ^ 43"
    by (simp add: power_int_minus_divide)
  have rw: "round_double (640 * double_1_2) = Num 768"
    unfolding round_double_def u by (simp add: round_half_even_def double_1_2_def)
  have "ulp (400 * double_1_2) = 2 powi (max 8 (- 1022) - 52)"
    by (rule ulp_at) (simp_all add: double_1_2_def)
  then have v: "ulp (400 * double_1_2) = 1 / 2 ^ 44"
    by (simp add: power_int_minus_divide)
  have rh: "round_double (400 * double_1_2) = Num 480"
    unfolding round_double_def v by (simp add: round_half_even_def double_1_2_def)
  have d: "dpr_or_1 window_1_2 = double_1_2"
    by (simp add: dpr_or_1_def window_1_2_def window0_def double_1_2_def)
  show w: "buffer_width window_1_2 canvas640 = Num 768"
    unfolding buffer_width_def d by (simp add: canvas640_def rw)
  show h: "buffer_height window_1_2 canvas640 = Num 480"
    unfolding buffer_height_def d by (simp add: canvas640_def rh)
  show "\<lfloor>640 * double_1_2\<rfloor> = 767" "\<lfloor>400 * double_1_2\<rfloor> = 479"
    by (simp_all add: double_1_2_def)
  from fit_buffer_fits [of window_1_2 canvas640 768 480] w h
  show "width (fit_buffer window_1_2 canvas640) = 768"
    and "height (fit_buffer window_1_2 canvas640) = 480"
    by simp_all
qed

text \<open>
  C8, amended. At every resize event the WebGPU backend, and at the start of every draw
  the software backend, computes the buffer size as the floor of the product, rounded to
  a double, of the CSS size and the device pixel ratio (1 when the ratio is 0), and
  assigns \<open>canvas.width\<close> and \<open>canvas.height\<close> only when one of them differs from the
  computed size, after which the buffer has the computed size whenever that is between
  0 and \<open>2^31 - 1\<close>; when they are equal the canvas is not written. The WebGPU backend
  then calls \<open>context.configure\<close> at every resize event, whether the size differed or
  not. The resize listeners of the rasterized and the software backend do nothing, and
  the rasterized backend does not touch the buffer size when it draws either.
\<close>

theorem resize_behaviour:
  "canvas (state_of (Engine_onResize s)) = fit_buffer (window s) (canvas s)
   \<and> (gpuContext s \<longrightarrow> effects (state_of (Engine_onResize s)) = effects s @ [Configure])
   \<and> canvas (state_of (EngineCanvas_draw c)) = fit_buffer (window c) (canvas c)
   \<and> EngineCanvas_onResize c = c
   \<and> EngineGL_onResize g = g
   \<and> canvas (state_of (EngineGL_draw g)) = canvas g
   \<and> buffer_width w k =
       Math_floor (js_mul (Num (real (clientWidth k)))
         (Num (if devicePixelRatio w = 0 then 1 else devicePixelRatio w)))
   \<and> buffer_height w k =
       Math_floor (js_mul (Num (real (clientHeight k)))
         (Num (if devicePixelRatio w = 0 then 1 else devicePixelRatio w)))
   \<and> (Num (of_int (width k)) = buffer_width w k \<and> Num (of_int (height k)) = buffer_height w k
        \<longrightarrow> fit_buffer w k = k)
   \<and> (Num (of_int (width k)) \<noteq> buffer_width w k \<or> Num (of_int (height k)) \<noteq> buffer_height w k
        \<longrightarrow> sizeWrites (fit_buffer w k) = sizeWrites k + 2
          \<and> width (fit_buffer w k) = reflect_unsigned 300 (buffer_width w k)
          \<and> height (fit_buffer w k) = reflect_unsigned 150 (buffer_height w k))
   \<and> (buffer_width w k = Num (of_int bw) \<and> 0 \<le> bw \<and> bw \<le> 2147483647
        \<and> buffer_height w k = Num (of_int bh) \<and> 0 \<le> bh \<and> bh \<le> 2147483647
        \<longrightarrow> width (fit_buffer w k) = bw \<and> height (fit_buffer w k) = bh)"
proof -
  have a: "canvas (state_of (Engine_onResize s)) = fit_buffer (window s) (canvas s)"
      "gpuContext s \<longrightarrow> effects (state_of (Engine_onResize s)) = effects s @ [Configure]"
    by (simp_all add: Engine_onResize_def Engine_configureContext_def Let_def)
  have b: "canvas (state_of (EngineCanvas_draw c)) = fit_buffer (window c) (canvas c)"
      "EngineCanvas_onResize c = c"
    by (simp_all add: EngineCanvas_draw_def EngineCanvas_onResize_def Let_def)
  have d: "EngineGL_onResize g = g" "canvas (state_of (EngineGL_draw g)) = canvas g"
    by (simp_all add: EngineGL_onResize_def EngineGL_draw_def)
  have f: "buffer_width w k =
       Math_floor (js_mul (Num (real (clientWidth k)))
         (Num (if devicePixelRatio w = 0 then 1 else devicePixelRatio w)))"
      "buffer_height w k =
       Math_floor (js_mul (Num (real (clientHeight k)))
         (Num (if devicePixelRatio w = 0 then 1 else devicePixelRatio w)))"
    unfolding buffer_width_def buffer_height_def dpr_or_1_def by (rule refl)+
  show ?thesis
    using a b d f fit_buffer_same [of k w] fit_buffer_differs [of k w]
      fit_buffer_fits [of w k bw bh]
    by blast
qed

text \<open>
  At a pixel ratio of 2 the 640 by 400 buffer is replaced by one of 1280 by 800 with
  two assignments, and the WebGPU engine configures its context; at a ratio of 1 the
  canvas is left alone.
\<close>

theorem resize_behaviour_witness:
  "gpuContext (Engine_started\<lparr>window := window0\<lparr>devicePixelRatio := 2\<rparr>\<rparr>)
   \<and> effects (state_of (Engine_onResize (Engine_started\<lparr>window := window0\<lparr>devicePixelRatio := 2\<rparr>\<rparr>)))
       = [Configure, WriteUniforms, CreateVertexBuffer, DrawCall, Configure]
   \<and> Num (of_int (width canvas640)) \<noteq> buffer_width (window0\<lparr>devicePixelRatio := 2\<rparr>) canvas640
   \<and> buffer_width (window0\<lparr>devicePixelRatio := 2\<rparr>) canvas640 = Num (of_int 1280)
   \<and> buffer_height (window0\<lparr>devicePixelRatio := 2\<rparr>) canvas640 = Num (of_int 800)
   \<and> width (fit_buffer (window0\<lparr>devicePixelRatio := 2\<rparr>) canvas640) = 1280
   \<and> height (fit_buffer (window0\<lparr>devicePixelRatio := 2\<rparr>) canvas640) = 800
   \<and> sizeWrites (fit_buffer (window0\<lparr>devicePixelRatio := 2\<rparr>) canvas640) = 2
   \<and> Num (of_int (width canvas640)) = buffer_width window0 canvas640
   \<and> Num (of_int (height canvas640)) = buffer_height window0 canvas640
   \<and> fit_buffer window0 canvas640 = canvas640"
  using resize_behaviour [of "Engine_started\<lparr>window := window0\<lparr>devicePixelRatio := 2\<rparr>\<rparr>"
      EngineCanvas_started EngineGL_started "window0\<lparr>devicePixelRatio := 2\<rparr>" canvas640 1280 800]
    resize_behaviour [of Engine_started EngineCanvas_started EngineGL_started window0 canvas640 640 400]
  by (simp add: Engine_started_eq canvas640_def window0_def buffer_width_def buffer_height_def
      dpr_or_1_def)


subsection \<open>The orchestrator without the accelerated API\<close>














end
